theory Spec2Isabelle
  imports Complex_Main
begin

section \<open>Spreadsheet cells, worksheets and the workbook\<close>

text \<open>
  The script \<^verbatim>\<open>cashflow_analysis.py\<close> reads a workbook with openpyxl
  (\<^verbatim>\<open>load_workbook(excel_file, data_only=True)\<close>). A cell's \<^verbatim>\<open>.value\<close> is
  \<^verbatim>\<open>None\<close>, a number, a string or a date (boolean cells are left out: the
  cash-flow layout has none). Numbers are modelled as exact reals (the amounts of the
  data model are real-valued); binary rounding is modelled where a branch of the script
  depends on it, in the standard deviation that guards the correlation.
\<close>

datatype cell_value =
    CNone
  | CNum real
  | CStr string
  | CDate nat

text \<open>Python truthiness, as used by \<^verbatim>\<open>x or 0\<close> and \<^verbatim>\<open>x if x else y\<close>.\<close>

fun truthy :: "cell_value \<Rightarrow> bool" where
  "truthy CNone = False"
| "truthy (CNum x) = (x \<noteq> 0)"
| "truthy (CStr s) = (s \<noteq> [])"
| "truthy (CDate d) = True"

text \<open>
  A worksheet is the dictionary of the cells that exist, keyed by (row, column), both
  counted from 1. \<^verbatim>\<open>ws.cell(r, c)\<close> returns the cell at that address and creates an
  empty one when there is none, so a read may extend the dictionary.
\<close>

type_synonym worksheet = "(nat \<times> nat) \<rightharpoonup> cell_value"

type_synonym workbook = "string \<rightharpoonup> worksheet"

datatype error =
    KeyError string
  | TypeError
  | ValueError
  | IndexError
  | ZeroDivisionError
  | OSError

definition cell :: "worksheet \<Rightarrow> nat \<Rightarrow> nat \<Rightarrow> cell_value \<times> worksheet" where
  "cell ws r c =
     (case ws (r, c) of
        Some v \<Rightarrow> (v, ws)
      | None \<Rightarrow> (CNone, ws((r, c) \<mapsto> CNone)))"

text \<open>The value a read of an address gives, whether or not the cell exists yet.\<close>

definition value_at :: "worksheet \<Rightarrow> nat \<Rightarrow> nat \<Rightarrow> cell_value" where
  "value_at ws r c = (case ws (r, c) of Some v \<Rightarrow> v | None \<Rightarrow> CNone)"

section \<open>Formatting a period index\<close>

text \<open>The decimal digits of a natural number, as \<^verbatim>\<open>f"{n}"\<close> prints them.\<close>

definition digit_char :: "nat \<Rightarrow> char" where
  "digit_char d = ''0123456789'' ! d"

function str_nat :: "nat \<Rightarrow> string" where
  "str_nat n = (if n < 10 then [digit_char n] else str_nat (n div 10) @ [digit_char (n mod 10)])"
  by pat_completeness auto
termination
  by (relation "measure (\<lambda>n. n)") auto

declare str_nat.simps [simp del]

section \<open>The scenario extractor\<close>

text \<open>
  \<^verbatim>\<open>month_val if month_val else f"Month {col-1}"\<close> for the header row and
  \<^verbatim>\<open>ws.cell(r, col).value or 0\<close> for the five amount rows.
\<close>

definition month_label :: "nat \<Rightarrow> cell_value \<Rightarrow> cell_value" where
  "month_label col month_val =
     (if truthy month_val then month_val else CStr (''Month '' @ str_nat (col - 1)))"

definition or_zero :: "cell_value \<Rightarrow> cell_value" where
  "or_zero v = (if truthy v then v else CNum 0)"

text \<open>
  One \<^verbatim>\<open>for col in range(2, 11): xs.append(...)\<close> loop: the columns still to visit,
  the worksheet (which the reads may extend) and the list built so far.
\<close>

fun read_row ::
  "(nat \<Rightarrow> cell_value \<Rightarrow> cell_value) \<Rightarrow> nat \<Rightarrow> nat list \<Rightarrow> worksheet \<Rightarrow> cell_value list
     \<Rightarrow> cell_value list \<times> worksheet" where
  "read_row f r [] ws acc = (acc, ws)"
| "read_row f r (col # cols) ws acc =
     (case cell ws r col of (v, ws') \<Rightarrow> read_row f r cols ws' (acc @ [f col v]))"

record dataframe =
  Month :: "cell_value list"
  Opening_Balance :: "cell_value list"
  Total_Inflows :: "cell_value list"
  Total_Outflows :: "cell_value list"
  Net_Cash_Flow :: "cell_value list"
  Closing_Balance :: "cell_value list"

text \<open>
  \<^verbatim>\<open>pd.DataFrame({...})\<close> from a dictionary of lists: pandas raises ValueError unless
  all lists have the same length. \<^verbatim>\<open>len(df)\<close> is the number of rows.
\<close>

definition pd_DataFrame ::
  "cell_value list \<Rightarrow> cell_value list \<Rightarrow> cell_value list \<Rightarrow> cell_value list
     \<Rightarrow> cell_value list \<Rightarrow> cell_value list \<Rightarrow> error + dataframe" where
  "pd_DataFrame months opening inflows outflows net_cf closing =
     (if length opening = length months \<and> length inflows = length months
         \<and> length outflows = length months \<and> length net_cf = length months
         \<and> length closing = length months
      then Inr \<lparr> Month = months, Opening_Balance = opening, Total_Inflows = inflows,
                 Total_Outflows = outflows, Net_Cash_Flow = net_cf, Closing_Balance = closing \<rparr>
      else Inl ValueError)"


text \<open>
  \<^verbatim>\<open>extract_scenario_data(sheet_name)\<close>. \<^verbatim>\<open>wb[sheet_name]\<close> raises KeyError when the
  workbook has no such sheet. The workbook is a module-level object: the function
  returns the data frame and leaves the workbook with the cells its reads created.
\<close>

definition extract_scenario_data :: "workbook \<Rightarrow> string \<Rightarrow> error + (dataframe \<times> workbook)" where
  "extract_scenario_data wb sheet_name =
     (case wb sheet_name of
        None \<Rightarrow> Inl (KeyError sheet_name)
      | Some ws \<Rightarrow>
          (case read_row month_label 4 [2..<11] ws [] of (months, ws1) \<Rightarrow>
           case read_row (\<lambda>col. or_zero) 5 [2..<11] ws1 [] of (opening, ws2) \<Rightarrow>
           case read_row (\<lambda>col. or_zero) 13 [2..<11] ws2 [] of (inflows, ws3) \<Rightarrow>
           case read_row (\<lambda>col. or_zero) 25 [2..<11] ws3 [] of (outflows, ws4) \<Rightarrow>
           case read_row (\<lambda>col. or_zero) 27 [2..<11] ws4 [] of (net_cf, ws5) \<Rightarrow>
           case read_row (\<lambda>col. or_zero) 29 [2..<11] ws5 [] of (closing, ws6) \<Rightarrow>
           (case pd_DataFrame months opening inflows outflows net_cf closing of
              Inl e \<Rightarrow> Inl e
            | Inr df \<Rightarrow> Inr (df, wb(sheet_name \<mapsto> ws6)))))"

section \<open>Numbers of the analysis\<close>

text \<open>
  A pandas column of numbers has a numeric dtype, and what \<^verbatim>\<open>.mean()\<close>, \<^verbatim>\<open>.std()\<close>
  or \<^verbatim>\<open>.iloc[i]\<close> return from it are numpy scalars: dividing by zero does not raise,
  it gives \<^verbatim>\<open>inf\<close>, \<^verbatim>\<open>-inf\<close> or \<^verbatim>\<open>nan\<close> (the script silences the warning with
  \<^verbatim>\<open>warnings.filterwarnings('ignore')\<close>). The sign of a zero is not modelled.
\<close>

datatype npfloat = Fin real | PosInf | NegInf | NaN

fun np_sub :: "npfloat \<Rightarrow> npfloat \<Rightarrow> npfloat" where
  "np_sub (Fin a) (Fin b) = Fin (a - b)"
| "np_sub NaN y = NaN"
| "np_sub x NaN = NaN"
| "np_sub PosInf PosInf = NaN"
| "np_sub NegInf NegInf = NaN"
| "np_sub PosInf y = PosInf"
| "np_sub NegInf y = NegInf"
| "np_sub (Fin a) PosInf = NegInf"
| "np_sub (Fin a) NegInf = PosInf"

fun np_mul :: "npfloat \<Rightarrow> npfloat \<Rightarrow> npfloat" where
  "np_mul (Fin a) (Fin b) = Fin (a * b)"
| "np_mul NaN y = NaN"
| "np_mul x NaN = NaN"
| "np_mul PosInf (Fin b) = (if b > 0 then PosInf else if b < 0 then NegInf else NaN)"
| "np_mul NegInf (Fin b) = (if b > 0 then NegInf else if b < 0 then PosInf else NaN)"
| "np_mul (Fin a) PosInf = (if a > 0 then PosInf else if a < 0 then NegInf else NaN)"
| "np_mul (Fin a) NegInf = (if a > 0 then NegInf else if a < 0 then PosInf else NaN)"
| "np_mul PosInf PosInf = PosInf"
| "np_mul PosInf NegInf = NegInf"
| "np_mul NegInf PosInf = NegInf"
| "np_mul NegInf NegInf = PosInf"

fun np_div :: "npfloat \<Rightarrow> npfloat \<Rightarrow> npfloat" where
  "np_div (Fin a) (Fin b) =
     (if b \<noteq> 0 then Fin (a / b)
      else if a > 0 then PosInf else if a < 0 then NegInf else NaN)"
| "np_div NaN y = NaN"
| "np_div x NaN = NaN"
| "np_div (Fin a) PosInf = Fin 0"
| "np_div (Fin a) NegInf = Fin 0"
| "np_div PosInf (Fin b) = (if b \<ge> 0 then PosInf else NegInf)"
| "np_div NegInf (Fin b) = (if b \<ge> 0 then NegInf else PosInf)"
| "np_div x y = NaN"

fun np_gt :: "npfloat \<Rightarrow> real \<Rightarrow> bool" where
  "np_gt (Fin a) c = (a > c)"
| "np_gt PosInf c = True"
| "np_gt NegInf c = False"
| "np_gt NaN c = False"

text \<open>
  An operand of the script's arithmetic is a numpy scalar or a plain Python number (a
  literal, or an element of a column whose dtype is \<^verbatim>\<open>object\<close>). Between two Python
  numbers division by zero raises ZeroDivisionError; as soon as one operand is a numpy
  scalar the operation is numpy's.
\<close>

datatype scalar = Np npfloat | Py real

fun as_np :: "scalar \<Rightarrow> npfloat" where
  "as_np (Np x) = x"
| "as_np (Py a) = Fin a"

fun sub :: "scalar \<Rightarrow> scalar \<Rightarrow> scalar" where
  "sub (Py a) (Py b) = Py (a - b)"
| "sub x y = Np (np_sub (as_np x) (as_np y))"

fun mul :: "scalar \<Rightarrow> scalar \<Rightarrow> scalar" where
  "mul (Py a) (Py b) = Py (a * b)"
| "mul x y = Np (np_mul (as_np x) (as_np y))"

fun truediv :: "scalar \<Rightarrow> scalar \<Rightarrow> error + scalar" where
  "truediv (Py a) (Py b) = (if b = 0 then Inl ZeroDivisionError else Inr (Py (a / b)))"
| "truediv x y = Inr (Np (np_div (as_np x) (as_np y)))"

fun gt :: "scalar \<Rightarrow> real \<Rightarrow> bool" where
  "gt (Py a) c = (a > c)"
| "gt (Np x) c = np_gt x c"

text \<open>Sequencing of steps that may raise: the first exception ends the block.\<close>

definition bind_result :: "error + 'a \<Rightarrow> ('a \<Rightarrow> error + 'b) \<Rightarrow> error + 'b" where
  "bind_result m f = (case m of Inl e \<Rightarrow> Inl e | Inr x \<Rightarrow> f x)"

section \<open>Columns as pandas Series\<close>

fun num_of :: "cell_value \<Rightarrow> error + real" where
  "num_of (CNum x) = Inr x"
| "num_of v = Inl TypeError"

text \<open>
  The numbers of a column, for the operations that go through all of it (\<^verbatim>\<open>.sum()\<close>,
  \<^verbatim>\<open>.mean()\<close>, \<^verbatim>\<open>.std()\<close>, \<^verbatim>\<open>.cumsum()\<close>, element-wise division): a text or a
  date among the cells makes them raise TypeError.
\<close>

fun series_numeric :: "cell_value list \<Rightarrow> error + real list" where
  "series_numeric [] = Inr []"
| "series_numeric (v # vs) =
     bind_result (num_of v) (\<lambda>x. bind_result (series_numeric vs) (\<lambda>xs. Inr (x # xs)))"

definition numeric_dtype :: "cell_value list \<Rightarrow> bool" where
  "numeric_dtype col = list_all (\<lambda>v. case v of CNum x \<Rightarrow> True | _ \<Rightarrow> False) col"

text \<open>
  \<^verbatim>\<open>col.iloc[i]\<close>: a negative index counts from the end, an index out of range raises
  IndexError.
\<close>

definition iloc :: "cell_value list \<Rightarrow> int \<Rightarrow> error + cell_value" where
  "iloc col i =
     (if 0 \<le> i \<and> i < int (length col) then Inr (col ! nat i)
      else if i < 0 \<and> - i \<le> int (length col) then Inr (col ! nat (int (length col) + i))
      else Inl IndexError)"

text \<open>
  An element used as an operand of arithmetic or of a comparison with a number: a numpy
  scalar when the column has a numeric dtype, else the Python object itself, and a text
  or a date there raises TypeError.
\<close>

definition operand :: "cell_value list \<Rightarrow> cell_value \<Rightarrow> error + scalar" where
  "operand col v =
     (case v of
        CNum x \<Rightarrow> Inr (if numeric_dtype col then Np (Fin x) else Py x)
      | _ \<Rightarrow> Inl TypeError)"

definition iloc_num :: "cell_value list \<Rightarrow> int \<Rightarrow> error + scalar" where
  "iloc_num col i = bind_result (iloc col i) (operand col)"

definition mean :: "real list \<Rightarrow> npfloat" where
  "mean xs = (if xs = [] then NaN else Fin (sum_list xs / real (length xs)))"

section \<open>Binary64 arithmetic of the standard deviation\<close>

text \<open>
  The guard of the correlation compares a standard deviation with zero, and whether a
  computed deviation is zero depends on rounding. The standard deviation is therefore
  modelled in binary64 arithmetic: \<open>fl\<close> rounds a real to the nearest number with a
  53-bit significand, ties to even, with gradual underflow below \<open>2 powi -1022\<close>;
  overflow is not modelled.
\<close>

definition rne :: "real \<Rightarrow> int" where
  "rne y =
     (let f = \<lfloor>y\<rfloor>; d = y - of_int f
      in if d < 1 / 2 then f else if d > 1 / 2 then f + 1
         else if even f then f else f + 1)"

definition fl :: "real \<Rightarrow> real" where
  "fl x =
     (if x = 0 then 0
      else let e = max \<lfloor>log 2 \<bar>x\<bar>\<rfloor> (- 1022); u = 2 powi (e - 52)
           in u * of_int (rne (x / u)))"

text \<open>
  \<^verbatim>\<open>values.sum()\<close> on a float64 array is numpy's pairwise summation: a plain loop
  below 8 elements; up to 128 elements eight running sums that are combined as a tree,
  then the elements left over are added one by one; above 128 the array is split in two.
\<close>

fun seq_sum :: "real \<Rightarrow> real list \<Rightarrow> real" where
  "seq_sum res [] = res"
| "seq_sum res (x # xs) = seq_sum (fl (res + x)) xs"

function acc_blocks :: "real list \<Rightarrow> real list \<Rightarrow> real list \<times> real list" where
  "acc_blocks r xs =
     (if 8 \<le> length xs
      then acc_blocks (map (\<lambda>(a, b). fl (a + b)) (zip r (take 8 xs))) (drop 8 xs)
      else (r, xs))"
  by pat_completeness auto
termination
  by (relation "measure (\<lambda>(r, xs). length xs)") auto

declare acc_blocks.simps [simp del]

definition block_sum :: "real list \<Rightarrow> real" where
  "block_sum xs =
     (case acc_blocks (take 8 xs) (drop 8 xs) of
        (r, rest) \<Rightarrow>
          seq_sum (fl (fl (fl (r ! 0 + r ! 1) + fl (r ! 2 + r ! 3))
                       + fl (fl (r ! 4 + r ! 5) + fl (r ! 6 + r ! 7)))) rest)"

function np_sum :: "real list \<Rightarrow> real" where
  "np_sum xs =
     (if length xs < 8 then seq_sum 0 xs
      else if length xs \<le> 128 then block_sum xs
      else fl (np_sum (take (length xs div 2 - length xs div 2 mod 8) xs)
               + np_sum (drop (length xs div 2 - length xs div 2 mod 8) xs)))"
  by pat_completeness auto
termination
  by (relation "measure length") auto

declare np_sum.simps [simp del]

text \<open>
  The sample standard deviation as pandas computes it (\<^verbatim>\<open>nan\<close> below two values): the
  values as float64, their mean, the squared differences from the mean, their sum
  divided by N - 1, and the square root, each operation rounded.
\<close>

definition std :: "real list \<Rightarrow> npfloat" where
  "std xs =
     (if length xs < 2 then NaN
      else let values = map fl xs;
               avg = fl (np_sum values / real (length xs));
               sqr = map (\<lambda>x. fl ((fl (avg - x))\<^sup>2)) values
           in Fin (fl (sqrt (fl (np_sum sqr / real (length xs - 1))))))"

text \<open>
  Pearson's coefficient (\<^verbatim>\<open>Series.corr\<close>), \<^verbatim>\<open>nan\<close> when a column does not vary. Its
  value is written in exact arithmetic; only whether the script computes it is
  analysed below.
\<close>

definition corr :: "real list \<Rightarrow> real list \<Rightarrow> npfloat" where
  "corr xs ys =
     (let n = min (length xs) (length ys);
          xs' = take n xs; ys' = take n ys;
          mx = sum_list xs' / real n; my = sum_list ys' / real n;
          sxy = sum_list (map (\<lambda>(x, y). (x - mx) * (y - my)) (zip xs' ys'));
          sxx = sum_list (map (\<lambda>x. (x - mx)\<^sup>2) xs');
          syy = sum_list (map (\<lambda>y. (y - my)\<^sup>2) ys')
      in if n < 2 \<or> sxx = 0 \<or> syy = 0 then NaN else Fin (sxy / sqrt (sxx * syy)))"

section \<open>Descriptive statistics of the base scenario\<close>

text \<open>
  The table that \<^verbatim>\<open>describe()\<close> prints is console output only. The key metrics are
  the means and sums of the base columns, which raise on a column that holds a text or a
  date, the growth rate and the expense ratio.

  \<^verbatim>\<open>if first > 0: growth_rate = ((last / first) - 1) * 100 else: growth_rate = 0\<close>
  on the first and the last element of the inflow column.
\<close>

definition growth_rate :: "cell_value list \<Rightarrow> error + scalar" where
  "growth_rate inflows =
     bind_result (iloc_num inflows 0) (\<lambda>first.
       if gt first 0
       then bind_result (iloc_num inflows (- 1)) (\<lambda>last.
            bind_result (truediv last first) (\<lambda>q.
            Inr (mul (sub q (Py 1)) (Py 100))))
       else Inr (Py 0))"

text \<open>\<^verbatim>\<open>avg_outflows / avg_inflows * 100\<close>, on the two means.\<close>

definition expense_ratio :: "npfloat \<Rightarrow> npfloat \<Rightarrow> error + scalar" where
  "expense_ratio avg_outflows avg_inflows =
     bind_result (truediv (Np avg_outflows) (Np avg_inflows)) (\<lambda>q. Inr (mul q (Py 100)))"

record key_metrics =
  avg_inflows :: npfloat
  avg_outflows :: npfloat
  avg_net_cf :: npfloat
  total_inflows :: real
  total_outflows :: real
  revenue_growth_rate :: scalar
  expense_ratio_pct :: scalar

definition descriptive_statistics :: "dataframe \<Rightarrow> error + key_metrics" where
  "descriptive_statistics base_df =
     bind_result (series_numeric (Total_Inflows base_df)) (\<lambda>ins.
     bind_result (series_numeric (Total_Outflows base_df)) (\<lambda>outs.
     bind_result (series_numeric (Net_Cash_Flow base_df)) (\<lambda>net.
     bind_result (growth_rate (Total_Inflows base_df)) (\<lambda>g.
     bind_result (expense_ratio (mean outs) (mean ins)) (\<lambda>er.
     Inr \<lparr> avg_inflows = mean ins, avg_outflows = mean outs, avg_net_cf = mean net,
           total_inflows = sum_list ins, total_outflows = sum_list outs,
           revenue_growth_rate = g, expense_ratio_pct = er \<rparr>)))))"

section \<open>Scenario comparison and risk metrics\<close>

text \<open>One column of the comparison table, in millions.\<close>

record scenario_column =
  final_cash_balance :: scalar
  total_cash_inflow :: real
  total_cash_outflow :: real
  cumulative_net_cf :: real
  average_monthly_cf :: npfloat

definition comparison_column :: "dataframe \<Rightarrow> error + scenario_column" where
  "comparison_column df =
     bind_result (iloc_num (Closing_Balance df) (- 1)) (\<lambda>final.
     bind_result (truediv final (Py 1000000)) (\<lambda>fb.
     bind_result (series_numeric (Total_Inflows df)) (\<lambda>ins.
     bind_result (series_numeric (Total_Outflows df)) (\<lambda>outs.
     bind_result (series_numeric (Net_Cash_Flow df)) (\<lambda>net.
     Inr \<lparr> final_cash_balance = fb,
           total_cash_inflow = sum_list ins / 1000000,
           total_cash_outflow = sum_list outs / 1000000,
           cumulative_net_cf = sum_list net / 1000000,
           average_monthly_cf = np_div (mean net) (Fin 1000000) \<rparr>)))))"

definition scenarios_comparison ::
  "dataframe \<Rightarrow> dataframe \<Rightarrow> dataframe
     \<Rightarrow> error + (scenario_column \<times> scenario_column \<times> scenario_column)" where
  "scenarios_comparison optimistic_df base_df pessimistic_df =
     bind_result (comparison_column optimistic_df) (\<lambda>opt.
     bind_result (comparison_column base_df) (\<lambda>base.
     bind_result (comparison_column pessimistic_df) (\<lambda>pes.
     Inr (opt, base, pes))))"

text \<open>
  \<^verbatim>\<open>risk_range = best_case - worst_case\<close> and
  \<^verbatim>\<open>risk_range / base_case * 100\<close>, on the last closing balances.
\<close>

definition risk_range :: "scalar \<Rightarrow> scalar \<Rightarrow> scalar" where
  "risk_range best_case worst_case = sub best_case worst_case"

definition scenario_spread :: "scalar \<Rightarrow> scalar \<Rightarrow> error + scalar" where
  "scenario_spread rr base_case =
     bind_result (truediv rr base_case) (\<lambda>q. Inr (mul q (Py 100)))"

record risk_metrics =
  best_case :: scalar
  worst_case :: scalar
  base_case :: scalar
  risk_range_value :: scalar
  scenario_spread_pct :: scalar

definition risk_analysis :: "dataframe \<Rightarrow> dataframe \<Rightarrow> dataframe \<Rightarrow> error + risk_metrics" where
  "risk_analysis optimistic_df base_df pessimistic_df =
     bind_result (iloc_num (Closing_Balance optimistic_df) (- 1)) (\<lambda>best.
     bind_result (iloc_num (Closing_Balance pessimistic_df) (- 1)) (\<lambda>worst.
     bind_result (iloc_num (Closing_Balance base_df) (- 1)) (\<lambda>base.
     bind_result (scenario_spread (risk_range best worst) base) (\<lambda>spread.
     Inr \<lparr> best_case = best, worst_case = worst, base_case = base,
           risk_range_value = risk_range best worst, scenario_spread_pct = spread \<rparr>))))"

section \<open>Volatility, correlation and trend\<close>

datatype strength = Strong | Moderate | Weak

datatype corr_report = Correlation npfloat strength | CannotCalculate

text \<open>
  \<^verbatim>\<open>if inflows.std() > 0 and outflows.std() > 0: correlation = inflows.corr(outflows)\<close>,
  else the report says the correlation cannot be calculated.
\<close>

definition correlation :: "real list \<Rightarrow> real list \<Rightarrow> corr_report" where
  "correlation inflows outflows =
     (if np_gt (std inflows) 0 \<and> np_gt (std outflows) 0
      then let c = corr inflows outflows
           in Correlation c (if np_gt c 0.8 then Strong
                             else if np_gt c 0.5 then Moderate else Weak)
      else CannotCalculate)"

text \<open>
  \<^verbatim>\<open>np.polyfit(np.arange(n), col, 1)[0]\<close>: the least-squares slope against the period
  index, computed only when there is more than one period.
\<close>

definition trend_slope :: "real list \<Rightarrow> real option" where
  "trend_slope ys =
     (let n = length ys;
          ts = map real [0..<n];
          mt = sum_list ts / real n;
          my = sum_list ys / real n
      in if n > 1
         then Some (sum_list (map (\<lambda>(t, y). (t - mt) * (y - my)) (zip ts ys))
                    / sum_list (map (\<lambda>t. (t - mt)\<^sup>2) ts))
         else None)"

record statistical =
  base_volatility :: npfloat
  opt_volatility :: npfloat
  pes_volatility :: npfloat
  correlation_report :: corr_report
  inflow_trend :: "real option"
  outflow_trend :: "real option"

definition statistical_analysis :: "dataframe \<Rightarrow> dataframe \<Rightarrow> dataframe \<Rightarrow> error + statistical" where
  "statistical_analysis optimistic_df base_df pessimistic_df =
     bind_result (series_numeric (Net_Cash_Flow base_df)) (\<lambda>net.
     bind_result (series_numeric (Net_Cash_Flow optimistic_df)) (\<lambda>opt_net.
     bind_result (series_numeric (Net_Cash_Flow pessimistic_df)) (\<lambda>pes_net.
     bind_result (series_numeric (Total_Inflows base_df)) (\<lambda>ins.
     bind_result (series_numeric (Total_Outflows base_df)) (\<lambda>outs.
     Inr \<lparr> base_volatility = np_div (std net) (Fin 1000000),
           opt_volatility = np_div (std opt_net) (Fin 1000000),
           pes_volatility = np_div (std pes_net) (Fin 1000000),
           correlation_report = correlation ins outs,
           inflow_trend = trend_slope ins,
           outflow_trend = trend_slope outs \<rparr>)))))"

section \<open>Break-even analysis\<close>

datatype be_status = Aman | CukupAman | PerluPerhatian

record break_even_snapshot =
  be_revenue :: real
  be_transactions :: cell_value
  current_revenue :: real
  safety_margin :: real
  status :: be_status

text \<open>
  \<^verbatim>\<open>f"{be_transactions:>10,.0f}"\<close>: a number is printed, a text raises ValueError
  (unknown format code), a date takes the format string as a strftime pattern and
  prints.
\<close>

fun format_f :: "cell_value \<Rightarrow> error + unit" where
  "format_f (CNum x) = Inr ()"
| "format_f (CStr s) = Inl ValueError"
| "format_f (CDate d) = Inr ()"
| "format_f CNone = Inl TypeError"

text \<open>
  \<^verbatim>\<open>f"{safety_margin*100:>10.1f}"\<close>: a text is repeated a hundred times and then
  refused by the format (ValueError); a date cannot be multiplied (TypeError).
\<close>

fun margin_percent :: "cell_value \<Rightarrow> error + real" where
  "margin_percent (CNum x) = Inr x"
| "margin_percent (CStr s) = Inl ValueError"
| "margin_percent v = Inl TypeError"

text \<open>
  The body of the break-even \<^verbatim>\<open>try\<close> block; \<open>Inl\<close> is the exception that the
  \<^verbatim>\<open>except Exception\<close> clause catches and reports as
  \<^verbatim>\<open>Could not extract break-even data\<close>.
\<close>

definition break_even_analysis :: "workbook \<Rightarrow> error + break_even_snapshot" where
  "break_even_analysis wb =
     (case wb ''Analisis Break-Even'' of
        None \<Rightarrow> Inl (KeyError ''Analisis Break-Even'')
      | Some ws_be \<Rightarrow>
          (case cell ws_be 11 2 of (v1, ws1) \<Rightarrow>
           case cell ws1 10 2 of (v2, ws2) \<Rightarrow>
           case cell ws2 14 2 of (v3, ws3) \<Rightarrow>
           case cell ws3 18 2 of (v4, ws4) \<Rightarrow>
             bind_result (num_of (or_zero v1)) (\<lambda>rev.
             bind_result (format_f (or_zero v2)) (\<lambda>u.
             bind_result (num_of (or_zero v3)) (\<lambda>cur.
             bind_result (margin_percent (or_zero v4)) (\<lambda>sm.
             Inr \<lparr> be_revenue = rev, be_transactions = or_zero v2,
                   current_revenue = cur, safety_margin = sm,
                   status = (if sm > 0.15 then Aman
                             else if sm > 0.08 then CukupAman else PerluPerhatian) \<rparr>))))))"

section \<open>Sheets of amounts\<close>

text \<open>
  A cell that the extractor turns into a number: a number, an empty or missing cell, or
  an empty text. A sheet is numeric when the five amount rows hold such cells in
  columns 2 to 10.
\<close>

definition amount_cell :: "cell_value \<Rightarrow> bool" where
  "amount_cell v = (case or_zero v of CNum x \<Rightarrow> True | _ \<Rightarrow> False)"

definition numeric_sheet :: "worksheet \<Rightarrow> bool" where
  "numeric_sheet ws =
     (\<forall>r \<in> {5, 13, 25, 27, 29}. \<forall>c \<in> {2..<11}. amount_cell (value_at ws r c))"

text \<open>The numbers of an amount row, columns 2 to 10.\<close>

definition amounts :: "worksheet \<Rightarrow> nat \<Rightarrow> real list" where
  "amounts ws r =
     map (\<lambda>col. case or_zero (value_at ws r col) of CNum x \<Rightarrow> x | _ \<Rightarrow> 0) [2..<11]"

text \<open>
  The frame of a sheet written from the values of its cells: what the extractor is shown
  below to return.
\<close>

definition sheet_frame :: "worksheet \<Rightarrow> dataframe" where
  "sheet_frame ws =
     \<lparr> Month = map (\<lambda>col. month_label col (value_at ws 4 col)) [2..<11],
       Opening_Balance = map (\<lambda>col. or_zero (value_at ws 5 col)) [2..<11],
       Total_Inflows = map (\<lambda>col. or_zero (value_at ws 13 col)) [2..<11],
       Total_Outflows = map (\<lambda>col. or_zero (value_at ws 25 col)) [2..<11],
       Net_Cash_Flow = map (\<lambda>col. or_zero (value_at ws 27 col)) [2..<11],
       Closing_Balance = map (\<lambda>col. or_zero (value_at ws 29 col)) [2..<11] \<rparr>"

section \<open>The dashboard\<close>

text \<open>
  The month-over-month loop of the third chart, on the base closing balances (numbers by
  then: the first chart has divided the column element-wise):
  \<^verbatim>\<open>for i in range(len(base_df)): ... base_growth.append(growth)\<close>.
\<close>

fun base_growth_loop :: "real list \<Rightarrow> nat list \<Rightarrow> real list \<Rightarrow> real list" where
  "base_growth_loop closing [] acc = acc"
| "base_growth_loop closing (i # is) acc =
     base_growth_loop closing is
       (acc @ [if i > 0 \<and> closing ! (i - 1) > 0
               then ((closing ! i / closing ! (i - 1)) - 1) * 100
               else 0])"

definition base_growth :: "real list \<Rightarrow> real list" where
  "base_growth closing = base_growth_loop closing [0..<length closing] []"

fun cumsum_from :: "real \<Rightarrow> real list \<Rightarrow> real list" where
  "cumsum_from s [] = []"
| "cumsum_from s (x # xs) = (s + x) # cumsum_from (s + x) xs"

definition cumsum :: "real list \<Rightarrow> real list" where
  "cumsum xs = cumsum_from 0 xs"

record dashboard =
  month_labels :: "cell_value list \<times> cell_value list \<times> cell_value list"
  balance_lines :: "real list \<times> real list \<times> real list"
  final_bars :: "real list"
  growth_line :: "real list"
  cumulative_lines :: "real list \<times> real list \<times> real list"

text \<open>
  What the environment decides. Whether matplotlib draws and saves a figure depends on
  what is drawn (a figure whose labels fall far outside the axes is refused as too
  large), so the environment gives, for the data of a figure, the exception that drawing
  and saving it raises, if any. Whether the two CSV files can be written is the file
  system's matter.
\<close>

record environment =
  savefig :: "dashboard \<Rightarrow> error option"
  summary_csv_ok :: bool
  scenario_csv_ok :: bool

text \<open>
  The body of the visualisation \<^verbatim>\<open>try\<close> block; \<open>Inl\<close> is caught and reported, and
  then no PNG file is written.
\<close>

definition generate_visualizations ::
  "environment \<Rightarrow> dataframe \<Rightarrow> dataframe \<Rightarrow> dataframe \<Rightarrow> error + dashboard" where
  "generate_visualizations env optimistic_df base_df pessimistic_df =
     bind_result (series_numeric (Closing_Balance base_df)) (\<lambda>cb.
     bind_result (series_numeric (Closing_Balance optimistic_df)) (\<lambda>co.
     bind_result (series_numeric (Closing_Balance pessimistic_df)) (\<lambda>cp.
     bind_result (series_numeric (Net_Cash_Flow base_df)) (\<lambda>nb.
     bind_result (series_numeric (Net_Cash_Flow optimistic_df)) (\<lambda>no.
     bind_result (series_numeric (Net_Cash_Flow pessimistic_df)) (\<lambda>np.
     if cb = [] \<or> co = [] \<or> cp = [] then Inl IndexError
     else let fig = \<lparr> month_labels = (Month base_df, Month optimistic_df,
                                         Month pessimistic_df),
                         balance_lines = (map (\<lambda>x. x / 1000000000) cb,
                                          map (\<lambda>x. x / 1000000000) co,
                                          map (\<lambda>x. x / 1000000000) cp),
                         final_bars = [last co / 1000000000, last cb / 1000000000,
                                       last cp / 1000000000],
                         growth_line = base_growth cb,
                         cumulative_lines = (map (\<lambda>x. x / 1000000000) (cumsum nb),
                                             map (\<lambda>x. x / 1000000000) (cumsum no),
                                             map (\<lambda>x. x / 1000000000) (cumsum np)) \<rparr>
          in case savefig env fig of None \<Rightarrow> Inr fig | Some e \<Rightarrow> Inl e))))))"

section \<open>The two exported tables\<close>

text \<open>
  The ten rows of \<^verbatim>\<open>analysis_summary.csv\<close> (the values before they are formatted)
  and the seven columns of \<^verbatim>\<open>scenario_comparison.csv\<close>. The expense ratio is divided
  again when the summary is built. Both files are written in one \<^verbatim>\<open>try\<close> block:
  when the first write fails the second is not attempted.
\<close>

record exports =
  analysis_summary_csv :: "(string \<times> scalar) list option"
  scenario_comparison_csv :: "(string \<times> cell_value list) list option"

definition summary_df ::
  "key_metrics \<Rightarrow> statistical \<Rightarrow> risk_metrics \<Rightarrow> error + (string \<times> scalar) list" where
  "summary_df km st rk =
     bind_result (truediv (Np (avg_inflows km)) (Py 1000000)) (\<lambda>a1.
     bind_result (truediv (Np (avg_outflows km)) (Py 1000000)) (\<lambda>a2.
     bind_result (truediv (Np (avg_net_cf km)) (Py 1000000)) (\<lambda>a3.
     bind_result (expense_ratio (avg_outflows km) (avg_inflows km)) (\<lambda>er.
     bind_result (truediv (base_case rk) (Py 1000000)) (\<lambda>b1.
     bind_result (truediv (best_case rk) (Py 1000000)) (\<lambda>b2.
     bind_result (truediv (worst_case rk) (Py 1000000)) (\<lambda>b3.
     bind_result (truediv (risk_range_value rk) (Py 1000000)) (\<lambda>b4.
     Inr [(''Avg Monthly Revenue'', a1),
          (''Avg Monthly Expenses'', a2),
          (''Avg Net Cash Flow'', a3),
          (''Revenue Growth Rate'', revenue_growth_rate km),
          (''Expense Ratio'', er),
          (''Cash Flow Volatility'', Np (base_volatility st)),
          (''Final Balance (Base)'', b1),
          (''Final Balance (Best)'', b2),
          (''Final Balance (Worst)'', b3),
          (''Risk Range'', b4)]))))))))"

definition combined_df :: "dataframe \<Rightarrow> dataframe \<Rightarrow> dataframe \<Rightarrow> (string \<times> cell_value list) list" where
  "combined_df optimistic_df base_df pessimistic_df =
     [(''Month'', Month base_df),
      (''Base_Inflows'', Total_Inflows base_df),
      (''Base_Outflows'', Total_Outflows base_df),
      (''Base_NetCF'', Net_Cash_Flow base_df),
      (''Base_Balance'', Closing_Balance base_df),
      (''Opt_Balance'', Closing_Balance optimistic_df),
      (''Pes_Balance'', Closing_Balance pessimistic_df)]"

definition export_results ::
  "environment \<Rightarrow> key_metrics \<Rightarrow> statistical \<Rightarrow> risk_metrics
     \<Rightarrow> dataframe \<Rightarrow> dataframe \<Rightarrow> dataframe \<Rightarrow> exports" where
  "export_results env km st rk optimistic_df base_df pessimistic_df =
     (case summary_df km st rk of
        Inl e \<Rightarrow> \<lparr> analysis_summary_csv = None, scenario_comparison_csv = None \<rparr>
      | Inr rows \<Rightarrow>
          if \<not> summary_csv_ok env
          then \<lparr> analysis_summary_csv = None, scenario_comparison_csv = None \<rparr>
          else if \<not> scenario_csv_ok env
          then \<lparr> analysis_summary_csv = Some rows, scenario_comparison_csv = None \<rparr>
          else \<lparr> analysis_summary_csv = Some rows,
                  scenario_comparison_csv =
                    Some (combined_df optimistic_df base_df pessimistic_df) \<rparr>)"

section \<open>The whole run\<close>

text \<open>
  The three extractions of the first \<^verbatim>\<open>try\<close> block, in the script's order; any
  exception there is caught and the script calls \<^verbatim>\<open>exit(1)\<close>.
\<close>

definition extract_all ::
  "workbook \<Rightarrow> error + (dataframe \<times> dataframe \<times> dataframe \<times> workbook)" where
  "extract_all wb =
     bind_result (extract_scenario_data wb ''Skenario Base'') (\<lambda>(base_df, wb1).
     bind_result (extract_scenario_data wb1 ''Skenario Optimistis'') (\<lambda>(optimistic_df, wb2).
     bind_result (extract_scenario_data wb2 ''Skenario Pesimistis'') (\<lambda>(pessimistic_df, wb3).
     Inr (base_df, optimistic_df, pessimistic_df, wb3))))"

text \<open>
  The statements between the extraction and the break-even block stand outside any
  \<^verbatim>\<open>try\<close>: an exception there ends the script with a traceback.
\<close>

record analysis =
  metrics :: key_metrics
  comparison :: "scenario_column \<times> scenario_column \<times> scenario_column"
  risk :: risk_metrics
  statistics :: statistical

definition analyse :: "dataframe \<Rightarrow> dataframe \<Rightarrow> dataframe \<Rightarrow> error + analysis" where
  "analyse optimistic_df base_df pessimistic_df =
     bind_result (descriptive_statistics base_df) (\<lambda>km.
     bind_result (scenarios_comparison optimistic_df base_df pessimistic_df) (\<lambda>cmp.
     bind_result (risk_analysis optimistic_df base_df pessimistic_df) (\<lambda>rk.
     bind_result (statistical_analysis optimistic_df base_df pessimistic_df) (\<lambda>st.
     Inr \<lparr> metrics = km, comparison = cmp, risk = rk, statistics = st \<rparr>))))"

record report =
  results :: analysis
  break_even :: "error + break_even_snapshot"
  dashboard_png :: "error + dashboard"
  exported :: exports

datatype outcome =
    FileNotFound
  | ExtractionError error
  | Uncaught error
  | Completed report

text \<open>
  The process exit status: \<^verbatim>\<open>exit(1)\<close> when the file is missing or the extraction
  fails, 1 as well after an uncaught exception, 0 when the script reaches its end.
\<close>

fun exit_status :: "outcome \<Rightarrow> nat" where
  "exit_status FileNotFound = 1"
| "exit_status (ExtractionError e) = 1"
| "exit_status (Uncaught e) = 1"
| "exit_status (Completed r) = 0"

text \<open>
  The script from top to bottom; \<open>None\<close> stands for a missing workbook file (a file
  that exists is taken to load). The break-even block, the dashboard and the exports
  each catch their own exceptions, so none of them changes the outcome of the others.
\<close>

definition run :: "environment \<Rightarrow> workbook option \<Rightarrow> outcome" where
  "run env file =
     (case file of
        None \<Rightarrow> FileNotFound
      | Some wb \<Rightarrow>
          (case extract_all wb of
             Inl e \<Rightarrow> ExtractionError e
           | Inr (base_df, optimistic_df, pessimistic_df, wb') \<Rightarrow>
               (case analyse optimistic_df base_df pessimistic_df of
                  Inl e \<Rightarrow> Uncaught e
                | Inr a \<Rightarrow>
                    Completed
                      \<lparr> results = a,
                        break_even = break_even_analysis wb',
                        dashboard_png =
                          generate_visualizations env optimistic_df base_df pessimistic_df,
                        exported =
                          export_results env (metrics a) (statistics a) (risk a)
                            optimistic_df base_df pessimistic_df \<rparr>)))"

section \<open>Properties of the extractor\<close>

lemma value_at_cell: "value_at (snd (cell ws r c)) r' c' = value_at ws r' c'"
  by (auto simp: cell_def value_at_def split: option.splits)

lemma fst_cell: "fst (cell ws r c) = value_at ws r c"
  by (simp add: cell_def value_at_def split: option.splits)

lemma read_row_fst:
  "fst (read_row f r cols ws acc) = acc @ map (\<lambda>col. f col (value_at ws r col)) cols"
proof (induction cols arbitrary: ws acc)
  case Nil
  show ?case by simp
next
  case (Cons col cols)
  obtain v ws' where c: "cell ws r col = (v, ws')"
    by (cases "cell ws r col")
  have v: "v = value_at ws r col"
    using fst_cell [of ws r col] c by simp
  have same: "\<And>k. value_at ws' r k = value_at ws r k"
    using value_at_cell [of ws r col] c by simp
  show ?case
    using Cons.IH [of ws' "acc @ [f col v]"] by (simp add: c v same)
qed

lemma read_row_snd:
  "value_at (snd (read_row f r cols ws acc)) r' c' = value_at ws r' c'"
proof (induction cols arbitrary: ws acc)
  case Nil
  show ?case by simp
next
  case (Cons col cols)
  obtain v ws' where c: "cell ws r col = (v, ws')"
    by (cases "cell ws r col")
  have same: "value_at ws' r' c' = value_at ws r' c'"
    using value_at_cell [of ws r col r' c'] c by simp
  show ?case
    using Cons.IH [of ws' "acc @ [f col v]"] by (simp add: c same)
qed

lemma extract_scenario_data_Some:
  assumes "wb name = Some ws"
  shows "\<exists>ws'. extract_scenario_data wb name =
           Inr (\<lparr> Month = map (\<lambda>col. month_label col (value_at ws 4 col)) [2..<11],
                   Opening_Balance = map (\<lambda>col. or_zero (value_at ws 5 col)) [2..<11],
                   Total_Inflows = map (\<lambda>col. or_zero (value_at ws 13 col)) [2..<11],
                   Total_Outflows = map (\<lambda>col. or_zero (value_at ws 25 col)) [2..<11],
                   Net_Cash_Flow = map (\<lambda>col. or_zero (value_at ws 27 col)) [2..<11],
                   Closing_Balance = map (\<lambda>col. or_zero (value_at ws 29 col)) [2..<11] \<rparr>,
                wb(name \<mapsto> ws'))
         \<and> (\<forall>r c. value_at ws' r c = value_at ws r c)"
  apply (simp add: extract_scenario_data_def assms split_beta read_row_fst read_row_snd
      pd_DataFrame_def del: upt_rec_numeral read_row.simps)
  apply (rule exI, rule conjI, rule refl)
  apply (simp only: read_row_snd)
  apply simp
  done







text \<open>
  Claim C9. Extracting a sheet a second time, from the workbook as the first extraction
  left it, returns the same frame: the cells that the first pass created are empty and
  change no value read.
\<close>

theorem extraction_deterministic:
  assumes "extract_scenario_data wb sheet_name = Inr (df, wb')"
  shows "\<exists>wb''. extract_scenario_data wb' sheet_name = Inr (df, wb'')"
proof -
  from assms obtain ws where ws: "wb sheet_name = Some ws"
    by (auto simp: extract_scenario_data_def split: option.splits)
  from extract_scenario_data_Some [of wb sheet_name ws] ws assms obtain ws' where
    df: "df = \<lparr> Month = map (\<lambda>col. month_label col (value_at ws 4 col)) [2..<11],
                   Opening_Balance = map (\<lambda>col. or_zero (value_at ws 5 col)) [2..<11],
                   Total_Inflows = map (\<lambda>col. or_zero (value_at ws 13 col)) [2..<11],
                   Total_Outflows = map (\<lambda>col. or_zero (value_at ws 25 col)) [2..<11],
                   Net_Cash_Flow = map (\<lambda>col. or_zero (value_at ws 27 col)) [2..<11],
                   Closing_Balance = map (\<lambda>col. or_zero (value_at ws 29 col)) [2..<11] \<rparr>"
    and wb': "wb' = wb(sheet_name \<mapsto> ws')"
    and same: "\<forall>r c. value_at ws' r c = value_at ws r c"
    by auto
  have "wb' sheet_name = Some ws'" by (simp add: wb')
  from extract_scenario_data_Some [of wb' sheet_name ws'] this show ?thesis
    by (auto simp: df same)
qed

theorem extraction_deterministic_witness:
  "\<exists>df wb' wb''.
     extract_scenario_data [''Skenario Base'' \<mapsto> [(13, 2) \<mapsto> CNum 100]] ''Skenario Base''
       = Inr (df, wb')
     \<and> extract_scenario_data wb' ''Skenario Base'' = Inr (df, wb'')"
proof -
  let ?ws = "[(13, 2) \<mapsto> CNum 100] :: worksheet"
  let ?wb = "[''Skenario Base'' \<mapsto> ?ws] :: workbook"
  have "?wb ''Skenario Base'' = Some ?ws" by simp
  with extract_scenario_data_Some [of ?wb "''Skenario Base''" ?ws]
  obtain df wb' where e: "extract_scenario_data ?wb ''Skenario Base'' = Inr (df, wb')"
    by blast
  from extraction_deterministic [of ?wb "''Skenario Base''" df wb'] e
  show ?thesis by blast
qed

section \<open>Numeric columns\<close>

lemma series_numeric_CNum: "series_numeric (map CNum xs) = Inr xs"
  by (induction xs) (simp_all add: bind_result_def)

lemma numeric_dtype_CNum: "numeric_dtype (map CNum xs)"
  by (induction xs) (simp_all add: numeric_dtype_def)

lemma iloc_num_first: "iloc_num (map CNum (x # xs)) 0 = Inr (Np (Fin x))"
  using numeric_dtype_CNum [of "x # xs"]
  by (simp add: iloc_num_def iloc_def operand_def bind_result_def)

lemma iloc_num_last:
  assumes "xs \<noteq> []"
  shows "iloc_num (map CNum xs) (- 1) = Inr (Np (Fin (last xs)))"
proof -
  have n: "nat (int (length xs) + - 1) = length xs - 1"
    using assms by (cases xs) simp_all
  have l: "map CNum xs ! (length xs - 1) = CNum (last xs)"
    using assms by (simp add: last_conv_nth)
  have "iloc (map CNum xs) (- 1) = Inr (CNum (last xs))"
    using assms n l by (cases xs) (simp_all add: iloc_def)
  then show ?thesis
    using numeric_dtype_CNum [of xs] by (simp add: iloc_num_def operand_def bind_result_def)
qed

section \<open>Growth rates\<close>

lemma growth_rate_CNum:
  "growth_rate (map CNum (first # rest)) =
     Inr (if first > 0 then Np (Fin ((last (first # rest) / first - 1) * 100)) else Py 0)"
  using iloc_num_first [of first rest] iloc_num_last [of "first # rest"]
  by (simp add: growth_rate_def bind_result_def del: list.map last.simps)

text \<open>
  Claim C2, as amended. On a numeric inflow column the growth rate is
  \<open>(last / first - 1) * 100\<close> when the first-period inflow is strictly positive and
  exactly 0 when it is zero or negative, whatever the later values are.
\<close>

theorem growth_rate_positive_guard:
  "map_sum id as_np (growth_rate (map CNum (first # rest))) =
     Inr (if first > 0 then Fin ((last (first # rest) / first - 1) * 100) else Fin 0)"
  by (simp add: growth_rate_CNum del: list.map last.simps)

text \<open>
  The claim as first stated (the formula for every nonzero first inflow) fails for a
  first inflow of -100 and a last inflow of 50: the script gives 0, the formula -150.
\<close>

theorem growth_rate_nonzero_counterexample:
  "(- 100 :: real) \<noteq> 0 \<and>
   map_sum id as_np (growth_rate (map CNum [- 100, 0, 0, 0, 0, 0, 0, 0, 50]))
     \<noteq> Inr (Fin ((50 / (- 100) - 1) * 100))"
  by (simp add: growth_rate_CNum del: list.map)

text \<open>
  Claim C10. When the first-period inflow is negative (or zero) the growth rate is 0,
  whatever the last-period inflow is: the guard is \<open>first > 0\<close>.
\<close>

theorem growth_rate_negative_first:
  assumes "first \<le> 0"
  shows "growth_rate (map CNum (first # rest)) = Inr (Py 0)"
  using assms by (simp add: growth_rate_CNum del: list.map last.simps)

theorem growth_rate_negative_first_witness:
  "(- 100 :: real) \<le> 0 \<and> growth_rate (map CNum [- 100, 0, 0, 0, 0, 0, 0, 0, 50]) = Inr (Py 0)"
  using growth_rate_negative_first [of "- 100" "[0, 0, 0, 0, 0, 0, 0, 50]"] by simp

lemma base_growth_loop_eq:
  "base_growth_loop closing idx acc =
     acc @ map (\<lambda>i. if i > 0 \<and> closing ! (i - 1) > 0
                     then ((closing ! i / closing ! (i - 1)) - 1) * 100 else 0) idx"
  by (induction idx arbitrary: acc) simp_all

text \<open>
  Claim C3. The month-over-month series has one value per period; at every index
  \<open>i > 0\<close> it is \<open>(closing i / closing (i - 1) - 1) * 100\<close> when the previous closing
  balance is positive and 0 otherwise, and it is 0 at index 0. For closing balances
  that start 100, 110, 0, 90 (millions) the value at index 2 is -100 and at index 3 is 0.
\<close>

theorem base_growth_month_over_month:
  "length (base_growth closing) = length closing
   \<and> (\<forall>i. 0 < i \<and> i < length closing \<longrightarrow>
         base_growth closing ! i =
           (if closing ! (i - 1) > 0 then (closing ! i / closing ! (i - 1) - 1) * 100 else 0))
   \<and> (closing \<noteq> [] \<longrightarrow> base_growth closing ! 0 = 0)
   \<and> (\<forall>rest. base_growth ([100000000, 110000000, 0, 90000000] @ rest) ! 2 = - 100
            \<and> base_growth ([100000000, 110000000, 0, 90000000] @ rest) ! 3 = 0)"
proof -
  have nth: "\<And>cl i. i < length cl \<Longrightarrow> base_growth cl ! i =
      (if i > 0 \<and> cl ! (i - 1) > 0 then ((cl ! i / cl ! (i - 1)) - 1) * 100 else 0)"
    by (simp add: base_growth_def base_growth_loop_eq)
  have len: "\<And>cl. length (base_growth cl) = length cl"
    by (simp add: base_growth_def base_growth_loop_eq)
  have ex: "\<And>rest. base_growth ([100000000, 110000000, 0, 90000000] @ rest) ! 2 = - 100
            \<and> base_growth ([100000000, 110000000, 0, 90000000] @ rest) ! 3 = 0"
    by (simp add: nth)
  show ?thesis
    using len nth ex by (auto simp: neq_Nil_conv)
qed

theorem base_growth_month_over_month_witness:
  "base_growth [100000000, 110000000, 0, 90000000, 95000000, 99000000, 1, 2, 3] ! 1 = 10
   \<and> base_growth [100000000, 110000000, 0, 90000000, 95000000, 99000000, 1, 2, 3] ! 2 = - 100
   \<and> base_growth [100000000, 110000000, 0, 90000000, 95000000, 99000000, 1, 2, 3] ! 3 = 0"
  using base_growth_month_over_month
    [of "[100000000, 110000000, 0, 90000000, 95000000, 99000000, 1, 2, 3]"]
  by simp

section \<open>Risk metrics\<close>

lemma risk_analysis_CNum:
  assumes "Closing_Balance optimistic_df = map CNum co" "co \<noteq> []"
    and "Closing_Balance base_df = map CNum cb" "cb \<noteq> []"
    and "Closing_Balance pessimistic_df = map CNum cp" "cp \<noteq> []"
  shows "risk_analysis optimistic_df base_df pessimistic_df =
     Inr \<lparr> best_case = Np (Fin (last co)), worst_case = Np (Fin (last cp)),
           base_case = Np (Fin (last cb)),
           risk_range_value = Np (Fin (last co - last cp)),
           scenario_spread_pct =
             Np (np_mul (np_div (Fin (last co - last cp)) (Fin (last cb))) (Fin 100)) \<rparr>"
  using assms
  by (simp add: risk_analysis_def iloc_num_last bind_result_def risk_range_def
      scenario_spread_def)

text \<open>
  Claim C4. For three frames with numeric closing balances, the risk range is the last
  optimistic closing balance minus the last pessimistic one, whichever is larger; the
  scenario spread is the risk range divided by the last base closing balance, times 100,
  when that balance is not zero, and is no finite number when it is zero. Final balances
  of 500, 300 and 100 million give a risk range of 400 million and a spread of 400/3,
  which is 133.3 to one decimal.
\<close>

theorem risk_range_and_spread:
  assumes "Closing_Balance optimistic_df = map CNum co" "co \<noteq> []"
    and "Closing_Balance base_df = map CNum cb" "cb \<noteq> []"
    and "Closing_Balance pessimistic_df = map CNum cp" "cp \<noteq> []"
  shows "\<exists>r. risk_analysis optimistic_df base_df pessimistic_df = Inr r
     \<and> risk_range_value r = Np (Fin (last co - last cp))
     \<and> (last cb \<noteq> 0 \<longrightarrow>
          scenario_spread_pct r = Np (Fin ((last co - last cp) / last cb * 100)))
     \<and> (last cb = 0 \<longrightarrow> (\<forall>x. scenario_spread_pct r \<noteq> Np (Fin x)) \<and> (\<forall>x. scenario_spread_pct r \<noteq> Py x))
     \<and> (last co = 500000000 \<and> last cb = 300000000 \<and> last cp = 100000000 \<longrightarrow>
          risk_range_value r = Np (Fin 400000000)
          \<and> scenario_spread_pct r = Np (Fin (400 / 3)) \<and> \<bar>400 / 3 - 133.3\<bar> < (0.05 :: real))"
  using risk_analysis_CNum [OF assms] by auto

theorem risk_range_and_spread_witness:
  "\<exists>r. risk_analysis
       \<lparr> Month = [], Opening_Balance = [], Total_Inflows = [], Total_Outflows = [],
         Net_Cash_Flow = [], Closing_Balance = map CNum [1, 500000000] \<rparr>
       \<lparr> Month = [], Opening_Balance = [], Total_Inflows = [], Total_Outflows = [],
         Net_Cash_Flow = [], Closing_Balance = map CNum [2, 300000000] \<rparr>
       \<lparr> Month = [], Opening_Balance = [], Total_Inflows = [], Total_Outflows = [],
         Net_Cash_Flow = [], Closing_Balance = map CNum [3, 100000000] \<rparr> = Inr r
     \<and> risk_range_value r = Np (Fin 400000000)
     \<and> scenario_spread_pct r = Np (Fin (400 / 3)) \<and> \<bar>400 / 3 - 133.3\<bar> < (0.05 :: real)"
  using risk_range_and_spread
    [of "\<lparr> Month = [], Opening_Balance = [], Total_Inflows = [], Total_Outflows = [],
         Net_Cash_Flow = [], Closing_Balance = map CNum [1, 500000000] \<rparr>"
        "[1, 500000000]"
        "\<lparr> Month = [], Opening_Balance = [], Total_Inflows = [], Total_Outflows = [],
         Net_Cash_Flow = [], Closing_Balance = map CNum [2, 300000000] \<rparr>"
        "[2, 300000000]"
        "\<lparr> Month = [], Opening_Balance = [], Total_Inflows = [], Total_Outflows = [],
         Net_Cash_Flow = [], Closing_Balance = map CNum [3, 100000000] \<rparr>"
        "[3, 100000000]"]
  by auto

section \<open>Expense ratio\<close>

lemma truediv_Np: "truediv (Np x) y = Inr (Np (np_div x (as_np y)))"
  by (cases y) simp_all

lemma expense_ratio_Np:
  "expense_ratio avg_out avg_in = Inr (Np (np_mul (np_div avg_out avg_in) (Fin 100)))"
  by (simp add: expense_ratio_def truediv_Np bind_result_def)

lemma descriptive_statistics_CNum:
  assumes "Total_Inflows base_df = map CNum (first # rest)"
    and "Total_Outflows base_df = map CNum outs"
    and "Net_Cash_Flow base_df = map CNum net"
  shows "descriptive_statistics base_df =
     Inr \<lparr> avg_inflows = mean (first # rest), avg_outflows = mean outs, avg_net_cf = mean net,
           total_inflows = sum_list (first # rest), total_outflows = sum_list outs,
           revenue_growth_rate =
             (if first > 0 then Np (Fin ((last (first # rest) / first - 1) * 100)) else Py 0),
           expense_ratio_pct =
             Np (np_mul (np_div (mean outs) (mean (first # rest))) (Fin 100)) \<rparr>"
  using assms series_numeric_CNum [of "first # rest"] growth_rate_CNum [of first rest]
  by (simp add: descriptive_statistics_def series_numeric_CNum expense_ratio_Np
      bind_result_def del: list.map last.simps series_numeric.simps)

text \<open>
  The claim as first stated (an error is raised when the mean inflow is zero) fails for
  inflows that are all 0 and outflows that are all 5: the statistics are computed and
  the expense ratio is \<open>inf\<close>.
\<close>

theorem expense_ratio_zero_inflow_counterexample:
  "map_sum id expense_ratio_pct
     (descriptive_statistics
       \<lparr> Month = [], Opening_Balance = [],
         Total_Inflows = map CNum [0, 0, 0, 0, 0, 0, 0, 0, 0],
         Total_Outflows = map CNum [5, 5, 5, 5, 5, 5, 5, 5, 5],
         Net_Cash_Flow = map CNum [- 5, - 5, - 5, - 5, - 5, - 5, - 5, - 5, - 5],
         Closing_Balance = [] \<rparr>) = Inr (Np PosInf)
   \<and> mean [0, 0, 0, 0, 0, 0, 0, 0, 0] = Fin 0"
  using descriptive_statistics_CNum
    [of "\<lparr> Month = [], Opening_Balance = [],
         Total_Inflows = map CNum [0, 0, 0, 0, 0, 0, 0, 0, 0],
         Total_Outflows = map CNum [5, 5, 5, 5, 5, 5, 5, 5, 5],
         Net_Cash_Flow = map CNum [- 5, - 5, - 5, - 5, - 5, - 5, - 5, - 5, - 5],
         Closing_Balance = [] \<rparr>" 0 "[0, 0, 0, 0, 0, 0, 0, 0]"
        "[5, 5, 5, 5, 5, 5, 5, 5, 5]" "[- 5, - 5, - 5, - 5, - 5, - 5, - 5, - 5, - 5]"]
  by (simp add: mean_def)

section \<open>The run: scenario sheets\<close>

lemma extract_scenario_data_None:
  "wb name = None \<Longrightarrow> extract_scenario_data wb name = Inl (KeyError name)"
  by (simp add: extract_scenario_data_def)

lemma extract_scenario_data_frame:
  assumes "wb name = Some ws"
  shows "\<exists>ws'. extract_scenario_data wb name = Inr (sheet_frame ws, wb(name \<mapsto> ws'))"
  using extract_scenario_data_Some [of wb name ws] assms
  unfolding sheet_frame_def by blast

lemma extract_all_Some:
  assumes b: "wb ''Skenario Base'' = Some wsb"
    and o: "wb ''Skenario Optimistis'' = Some wso"
    and p: "wb ''Skenario Pesimistis'' = Some wsp"
  shows "\<exists>wb3. extract_all wb = Inr (sheet_frame wsb, sheet_frame wso, sheet_frame wsp, wb3)
     \<and> wb3 ''Analisis Break-Even'' = wb ''Analisis Break-Even''"
proof -
  from extract_scenario_data_frame [of wb "''Skenario Base''" wsb] b obtain ws1 where
    e1: "extract_scenario_data wb ''Skenario Base'' =
           Inr (sheet_frame wsb, wb(''Skenario Base'' \<mapsto> ws1))"
    by blast
  let ?wb1 = "wb(''Skenario Base'' \<mapsto> ws1)"
  have "?wb1 ''Skenario Optimistis'' = Some wso" using o by simp
  from extract_scenario_data_frame [of ?wb1 "''Skenario Optimistis''" wso] this obtain ws2 where
    e2: "extract_scenario_data ?wb1 ''Skenario Optimistis'' =
           Inr (sheet_frame wso, ?wb1(''Skenario Optimistis'' \<mapsto> ws2))"
    by blast
  let ?wb2 = "?wb1(''Skenario Optimistis'' \<mapsto> ws2)"
  have "?wb2 ''Skenario Pesimistis'' = Some wsp" using p by simp
  from extract_scenario_data_frame [of ?wb2 "''Skenario Pesimistis''" wsp] this obtain ws3 where
    e3: "extract_scenario_data ?wb2 ''Skenario Pesimistis'' =
           Inr (sheet_frame wsp, ?wb2(''Skenario Pesimistis'' \<mapsto> ws3))"
    by blast
  let ?wb3 = "?wb2(''Skenario Pesimistis'' \<mapsto> ws3)"
  have "extract_all wb = Inr (sheet_frame wsb, sheet_frame wso, sheet_frame wsp, ?wb3)"
    by (simp add: extract_all_def bind_result_def e1 e2 e3)
  moreover have "?wb3 ''Analisis Break-Even'' = wb ''Analisis Break-Even''"
    by simp
  ultimately show ?thesis by blast
qed

lemma extract_all_missing:
  assumes "wb ''Skenario Base'' = None \<or> wb ''Skenario Optimistis'' = None
           \<or> wb ''Skenario Pesimistis'' = None"
  shows "\<exists>name \<in> {''Skenario Base'', ''Skenario Optimistis'', ''Skenario Pesimistis''}.
           wb name = None \<and> extract_all wb = Inl (KeyError name)"
proof (cases "wb ''Skenario Base''")
  case None
  then show ?thesis
    by (simp add: extract_all_def bind_result_def extract_scenario_data_None)
next
  case (Some wsb)
  from extract_scenario_data_frame [of wb "''Skenario Base''" wsb] Some obtain ws1 where
    e1: "extract_scenario_data wb ''Skenario Base'' =
           Inr (sheet_frame wsb, wb(''Skenario Base'' \<mapsto> ws1))"
    by blast
  let ?wb1 = "wb(''Skenario Base'' \<mapsto> ws1)"
  show ?thesis
  proof (cases "wb ''Skenario Optimistis''")
    case None
    then have "?wb1 ''Skenario Optimistis'' = None" by simp
    then have "extract_all wb = Inl (KeyError ''Skenario Optimistis'')"
      by (simp add: extract_all_def bind_result_def e1 extract_scenario_data_None)
    with None show ?thesis by blast
  next
    case (Some wso)
    then have "?wb1 ''Skenario Optimistis'' = Some wso" by simp
    from extract_scenario_data_frame [of ?wb1 "''Skenario Optimistis''" wso] this obtain ws2 where
      e2: "extract_scenario_data ?wb1 ''Skenario Optimistis'' =
             Inr (sheet_frame wso, ?wb1(''Skenario Optimistis'' \<mapsto> ws2))"
      by blast
    let ?wb2 = "?wb1(''Skenario Optimistis'' \<mapsto> ws2)"
    from assms \<open>wb ''Skenario Base'' = Some wsb\<close> Some
    have n: "wb ''Skenario Pesimistis'' = None" by simp
    then have "?wb2 ''Skenario Pesimistis'' = None" by simp
    then have "extract_all wb = Inl (KeyError ''Skenario Pesimistis'')"
      by (simp add: extract_all_def bind_result_def e1 e2 extract_scenario_data_None)
    with n show ?thesis by blast
  qed
qed

text \<open>
  Claim C5. When one of the three scenario sheets is missing, the extraction raises
  KeyError for the first missing sheet, the script exits with status 1, and the run
  produces no report: no comparison, chart or table.
\<close>

theorem missing_scenario_sheet_aborts:
  assumes "wb ''Skenario Base'' = None \<or> wb ''Skenario Optimistis'' = None
           \<or> wb ''Skenario Pesimistis'' = None"
  shows "(\<exists>name \<in> {''Skenario Base'', ''Skenario Optimistis'', ''Skenario Pesimistis''}.
            wb name = None \<and> run env (Some wb) = ExtractionError (KeyError name))
     \<and> exit_status (run env (Some wb)) = 1
     \<and> (\<forall>r. run env (Some wb) \<noteq> Completed r)"
proof -
  from extract_all_missing [OF assms] obtain name where
    n: "name \<in> {''Skenario Base'', ''Skenario Optimistis'', ''Skenario Pesimistis''}"
      "wb name = None" and e: "extract_all wb = Inl (KeyError name)"
    by blast
  have r: "run env (Some wb) = ExtractionError (KeyError name)"
    by (simp add: run_def e)
  with n show ?thesis by auto
qed

theorem missing_scenario_sheet_aborts_witness:
  "run \<lparr> savefig = (\<lambda>fig. None), summary_csv_ok = True, scenario_csv_ok = True \<rparr>
       (Some [''Skenario Base'' \<mapsto> Map.empty, ''Skenario Pesimistis'' \<mapsto> Map.empty,
              ''Analisis Break-Even'' \<mapsto> Map.empty])
     = ExtractionError (KeyError ''Skenario Optimistis'')
   \<and> exit_status
       (run \<lparr> savefig = (\<lambda>fig. None), summary_csv_ok = True, scenario_csv_ok = True \<rparr>
         (Some [''Skenario Base'' \<mapsto> Map.empty, ''Skenario Pesimistis'' \<mapsto> Map.empty,
                ''Analisis Break-Even'' \<mapsto> Map.empty])) = 1"
  using missing_scenario_sheet_aborts
    [of "[''Skenario Base'' \<mapsto> Map.empty, ''Skenario Pesimistis'' \<mapsto> Map.empty,
          ''Analisis Break-Even'' \<mapsto> Map.empty]"
        "\<lparr> savefig = (\<lambda>fig. None), summary_csv_ok = True, scenario_csv_ok = True \<rparr>"]
  by auto

section \<open>The run on numeric sheets\<close>

lemma amount_cell_CNum: "amount_cell v \<Longrightarrow> \<exists>x. or_zero v = CNum x"
  by (simp add: amount_cell_def split: cell_value.splits)

lemma numeric_row:
  assumes "\<forall>c \<in> {2..<11}. amount_cell (value_at ws r c)"
  shows "map (\<lambda>col. or_zero (value_at ws r col)) [2..<11] = map CNum (amounts ws r)"
proof -
  let ?g = "\<lambda>col. case or_zero (value_at ws r col) of CNum x \<Rightarrow> x | _ \<Rightarrow> 0"
  have "\<forall>c \<in> set [2..<11]. or_zero (value_at ws r c) = CNum (?g c)"
  proof
    fix c :: nat
    assume "c \<in> set [2..<11]"
    then have "amount_cell (value_at ws r c)"
      using assms by (simp del: upt_rec_numeral)
    from amount_cell_CNum [OF this] show "or_zero (value_at ws r c) = CNum (?g c)"
      by auto
  qed
  then show ?thesis
    unfolding amounts_def by (simp del: upt_rec_numeral)
qed

lemma length_amounts: "length (amounts ws r) = 9"
  by (simp add: amounts_def del: upt_rec_numeral)

lemma amounts_nonempty: "amounts ws r \<noteq> []"
  using length_amounts [of ws r] by auto

lemma amounts_hd_tl: "amounts ws r = hd (amounts ws r) # tl (amounts ws r)"
  using amounts_nonempty [of ws r] by simp

lemma numeric_sheet_frame:
  assumes "numeric_sheet ws"
  shows "Total_Inflows (sheet_frame ws) = map CNum (amounts ws 13)"
    and "Total_Outflows (sheet_frame ws) = map CNum (amounts ws 25)"
    and "Net_Cash_Flow (sheet_frame ws) = map CNum (amounts ws 27)"
    and "Closing_Balance (sheet_frame ws) = map CNum (amounts ws 29)"
proof -
  have r13: "\<forall>c \<in> {2..<11}. amount_cell (value_at ws 13 c)"
    and r25: "\<forall>c \<in> {2..<11}. amount_cell (value_at ws 25 c)"
    and r27: "\<forall>c \<in> {2..<11}. amount_cell (value_at ws 27 c)"
    and r29: "\<forall>c \<in> {2..<11}. amount_cell (value_at ws 29 c)"
    using assms unfolding numeric_sheet_def by blast+
  show "Total_Inflows (sheet_frame ws) = map CNum (amounts ws 13)"
    "Total_Outflows (sheet_frame ws) = map CNum (amounts ws 25)"
    "Net_Cash_Flow (sheet_frame ws) = map CNum (amounts ws 27)"
    "Closing_Balance (sheet_frame ws) = map CNum (amounts ws 29)"
    unfolding sheet_frame_def
    using numeric_row [OF r13] numeric_row [OF r25] numeric_row [OF r27] numeric_row [OF r29]
    by (simp_all del: upt_rec_numeral)
qed

lemma comparison_column_CNum:
  assumes "Total_Inflows df = map CNum ins"
    and "Total_Outflows df = map CNum outs"
    and "Net_Cash_Flow df = map CNum net"
    and "Closing_Balance df = map CNum cl" "cl \<noteq> []"
  shows "comparison_column df =
     Inr \<lparr> final_cash_balance = Np (Fin (last cl / 1000000)),
           total_cash_inflow = sum_list ins / 1000000,
           total_cash_outflow = sum_list outs / 1000000,
           cumulative_net_cf = sum_list net / 1000000,
           average_monthly_cf = np_div (mean net) (Fin 1000000) \<rparr>"
  using assms
  by (simp add: comparison_column_def iloc_num_last series_numeric_CNum bind_result_def
      del: series_numeric.simps)

lemma statistical_analysis_CNum:
  assumes "Total_Inflows base_df = map CNum ins"
    and "Total_Outflows base_df = map CNum outs"
    and "Net_Cash_Flow base_df = map CNum net"
    and "Net_Cash_Flow optimistic_df = map CNum onet"
    and "Net_Cash_Flow pessimistic_df = map CNum pnet"
  shows "statistical_analysis optimistic_df base_df pessimistic_df =
     Inr \<lparr> base_volatility = np_div (std net) (Fin 1000000),
           opt_volatility = np_div (std onet) (Fin 1000000),
           pes_volatility = np_div (std pnet) (Fin 1000000),
           correlation_report = correlation ins outs,
           inflow_trend = trend_slope ins,
           outflow_trend = trend_slope outs \<rparr>"
  using assms
  by (simp add: statistical_analysis_def series_numeric_CNum bind_result_def
      del: series_numeric.simps)

lemma analyse_numeric:
  assumes bi: "Total_Inflows base_df = map CNum (first # rest)"
    and bo: "Total_Outflows base_df = map CNum bouts"
    and bn: "Net_Cash_Flow base_df = map CNum bnet"
    and bc: "Closing_Balance base_df = map CNum bcl" "bcl \<noteq> []"
    and oi: "Total_Inflows optimistic_df = map CNum oins"
    and oo: "Total_Outflows optimistic_df = map CNum oouts"
    and on: "Net_Cash_Flow optimistic_df = map CNum onet"
    and oc: "Closing_Balance optimistic_df = map CNum ocl" "ocl \<noteq> []"
    and pi: "Total_Inflows pessimistic_df = map CNum pins"
    and po: "Total_Outflows pessimistic_df = map CNum pouts"
    and pn: "Net_Cash_Flow pessimistic_df = map CNum pnet"
    and pc: "Closing_Balance pessimistic_df = map CNum pcl" "pcl \<noteq> []"
  shows "\<exists>a. analyse optimistic_df base_df pessimistic_df = Inr a
     \<and> avg_inflows (metrics a) = mean (first # rest)
     \<and> avg_outflows (metrics a) = mean bouts
     \<and> avg_net_cf (metrics a) = mean bnet
     \<and> revenue_growth_rate (metrics a) =
         (if first > 0 then Np (Fin ((last (first # rest) / first - 1) * 100)) else Py 0)
     \<and> expense_ratio_pct (metrics a) =
         Np (np_mul (np_div (mean bouts) (mean (first # rest))) (Fin 100))
     \<and> base_volatility (statistics a) = np_div (std bnet) (Fin 1000000)
     \<and> base_case (risk a) = Np (Fin (last bcl))
     \<and> best_case (risk a) = Np (Fin (last ocl))
     \<and> worst_case (risk a) = Np (Fin (last pcl))
     \<and> risk_range_value (risk a) = Np (Fin (last ocl - last pcl))"
proof -
  note km = descriptive_statistics_CNum [OF bi bo bn]
  note cmp = comparison_column_CNum [OF oi oo on oc] comparison_column_CNum [OF bi bo bn bc]
    comparison_column_CNum [OF pi po pn pc]
  note rk = risk_analysis_CNum [OF oc bc pc]
  note st = statistical_analysis_CNum [OF bi bo bn on pn]
  show ?thesis
    by (simp add: analyse_def scenarios_comparison_def bind_result_def km cmp rk st
        del: list.map last.simps)
qed


lemma summary_df_Np:
  assumes "base_case rk = Np (Fin x1)" "best_case rk = Np (Fin x2)"
    "worst_case rk = Np (Fin x3)" "risk_range_value rk = Np (Fin x4)"
  shows "summary_df km st rk =
     Inr [(''Avg Monthly Revenue'', Np (np_div (avg_inflows km) (Fin 1000000))),
          (''Avg Monthly Expenses'', Np (np_div (avg_outflows km) (Fin 1000000))),
          (''Avg Net Cash Flow'', Np (np_div (avg_net_cf km) (Fin 1000000))),
          (''Revenue Growth Rate'', revenue_growth_rate km),
          (''Expense Ratio'', Np (np_mul (np_div (avg_outflows km) (avg_inflows km)) (Fin 100))),
          (''Cash Flow Volatility'', Np (base_volatility st)),
          (''Final Balance (Base)'', Np (Fin (x1 / 1000000))),
          (''Final Balance (Best)'', Np (Fin (x2 / 1000000))),
          (''Final Balance (Worst)'', Np (Fin (x3 / 1000000))),
          (''Risk Range'', Np (Fin (x4 / 1000000)))]"
  using assms
  by (simp add: summary_df_def truediv_Np expense_ratio_Np bind_result_def)

lemma export_results_Np:
  assumes "base_case rk = Np (Fin x1)" "best_case rk = Np (Fin x2)"
    "worst_case rk = Np (Fin x3)" "risk_range_value rk = Np (Fin x4)"
  shows "export_results env km st rk optimistic_df base_df pessimistic_df =
     \<lparr> analysis_summary_csv =
         (if summary_csv_ok env
          then Some [(''Avg Monthly Revenue'', Np (np_div (avg_inflows km) (Fin 1000000))),
                     (''Avg Monthly Expenses'', Np (np_div (avg_outflows km) (Fin 1000000))),
                     (''Avg Net Cash Flow'', Np (np_div (avg_net_cf km) (Fin 1000000))),
                     (''Revenue Growth Rate'', revenue_growth_rate km),
                     (''Expense Ratio'',
                        Np (np_mul (np_div (avg_outflows km) (avg_inflows km)) (Fin 100))),
                     (''Cash Flow Volatility'', Np (base_volatility st)),
                     (''Final Balance (Base)'', Np (Fin (x1 / 1000000))),
                     (''Final Balance (Best)'', Np (Fin (x2 / 1000000))),
                     (''Final Balance (Worst)'', Np (Fin (x3 / 1000000))),
                     (''Risk Range'', Np (Fin (x4 / 1000000)))]
          else None),
       scenario_comparison_csv =
         (if summary_csv_ok env \<and> scenario_csv_ok env
          then Some [(''Month'', Month base_df),
                     (''Base_Inflows'', Total_Inflows base_df),
                     (''Base_Outflows'', Total_Outflows base_df),
                     (''Base_NetCF'', Net_Cash_Flow base_df),
                     (''Base_Balance'', Closing_Balance base_df),
                     (''Opt_Balance'', Closing_Balance optimistic_df),
                     (''Pes_Balance'', Closing_Balance pessimistic_df)]
          else None) \<rparr>"
  by (simp add: export_results_def summary_df_Np [OF assms] combined_df_def)


lemma break_even_analysis_cong:
  "wb' ''Analisis Break-Even'' = wb ''Analisis Break-Even'' \<Longrightarrow>
     break_even_analysis wb' = break_even_analysis wb"
  by (simp add: break_even_analysis_def)







lemma run_numeric:
  assumes b: "wb ''Skenario Base'' = Some wsb" "numeric_sheet wsb"
    and o: "wb ''Skenario Optimistis'' = Some wso" "numeric_sheet wso"
    and p: "wb ''Skenario Pesimistis'' = Some wsp" "numeric_sheet wsp"
  shows "\<exists>a. run env (Some wb) =
       Completed
         \<lparr> results = a,
           break_even = break_even_analysis wb,
           dashboard_png =
             generate_visualizations env (sheet_frame wso) (sheet_frame wsb) (sheet_frame wsp),
           exported =
             export_results env (metrics a) (statistics a) (risk a)
               (sheet_frame wso) (sheet_frame wsb) (sheet_frame wsp) \<rparr>
     \<and> avg_inflows (metrics a) = mean (amounts wsb 13)
     \<and> avg_outflows (metrics a) = mean (amounts wsb 25)
     \<and> avg_net_cf (metrics a) = mean (amounts wsb 27)
     \<and> revenue_growth_rate (metrics a) =
         (if hd (amounts wsb 13) > 0
          then Np (Fin ((last (amounts wsb 13) / hd (amounts wsb 13) - 1) * 100))
          else Py 0)
     \<and> expense_ratio_pct (metrics a) =
         Np (np_mul (np_div (mean (amounts wsb 25)) (mean (amounts wsb 13))) (Fin 100))
     \<and> base_volatility (statistics a) = np_div (std (amounts wsb 27)) (Fin 1000000)
     \<and> base_case (risk a) = Np (Fin (last (amounts wsb 29)))
     \<and> best_case (risk a) = Np (Fin (last (amounts wso 29)))
     \<and> worst_case (risk a) = Np (Fin (last (amounts wsp 29)))
     \<and> risk_range_value (risk a) = Np (Fin (last (amounts wso 29) - last (amounts wsp 29)))"
proof -
  let ?b = "sheet_frame wsb" and ?o = "sheet_frame wso" and ?p = "sheet_frame wsp"
  from extract_all_Some [of wb wsb wso wsp] b(1) o(1) p(1) obtain wb3 where
    ex: "extract_all wb = Inr (?b, ?o, ?p, wb3)"
    and same: "wb3 ''Analisis Break-Even'' = wb ''Analisis Break-Even''"
    by blast
  have be: "break_even_analysis wb3 = break_even_analysis wb"
    using break_even_analysis_cong [of wb3 wb] same by simp
  have eq: "hd (amounts wsb 13) # tl (amounts wsb 13) = amounts wsb 13"
    using amounts_hd_tl [of wsb 13] by simp
  have bi: "Total_Inflows ?b = map CNum (hd (amounts wsb 13) # tl (amounts wsb 13))"
    unfolding eq by (rule numeric_sheet_frame(1) [OF b(2)])
  from analyse_numeric
    [OF bi numeric_sheet_frame(2) [OF b(2)] numeric_sheet_frame(3) [OF b(2)]
        numeric_sheet_frame(4) [OF b(2)] amounts_nonempty
        numeric_sheet_frame(1) [OF o(2)] numeric_sheet_frame(2) [OF o(2)]
        numeric_sheet_frame(3) [OF o(2)] numeric_sheet_frame(4) [OF o(2)] amounts_nonempty
        numeric_sheet_frame(1) [OF p(2)] numeric_sheet_frame(2) [OF p(2)]
        numeric_sheet_frame(3) [OF p(2)] numeric_sheet_frame(4) [OF p(2)] amounts_nonempty]
  obtain a where an: "analyse ?o ?b ?p = Inr a"
    and facts: "avg_inflows (metrics a) = mean (amounts wsb 13)"
      "avg_outflows (metrics a) = mean (amounts wsb 25)"
      "avg_net_cf (metrics a) = mean (amounts wsb 27)"
      "revenue_growth_rate (metrics a) =
         (if hd (amounts wsb 13) > 0
          then Np (Fin ((last (amounts wsb 13) / hd (amounts wsb 13) - 1) * 100))
          else Py 0)"
      "expense_ratio_pct (metrics a) =
         Np (np_mul (np_div (mean (amounts wsb 25)) (mean (amounts wsb 13))) (Fin 100))"
      "base_volatility (statistics a) = np_div (std (amounts wsb 27)) (Fin 1000000)"
      "base_case (risk a) = Np (Fin (last (amounts wsb 29)))"
      "best_case (risk a) = Np (Fin (last (amounts wso 29)))"
      "worst_case (risk a) = Np (Fin (last (amounts wsp 29)))"
      "risk_range_value (risk a) = Np (Fin (last (amounts wso 29) - last (amounts wsp 29)))"
    unfolding eq by blast
  have "run env (Some wb) =
       Completed
         \<lparr> results = a,
           break_even = break_even_analysis wb,
           dashboard_png = generate_visualizations env ?o ?b ?p,
           exported = export_results env (metrics a) (statistics a) (risk a) ?o ?b ?p \<rparr>"
    by (simp add: run_def ex an be)
  with facts show ?thesis by blast
qed






text \<open>
  Claim C7, as amended. On numeric scenario sheets the expense ratio is
  \<open>mean outflows / mean inflows * 100\<close> when the mean inflow of the base scenario is not
  zero. When it is zero no error is raised: the two means are numpy scalars, and the
  division gives \<open>inf\<close>, \<open>-inf\<close> or \<open>nan\<close> according to the sign of the mean outflow.
  That value is the expense ratio of the key metrics and of the Expense Ratio row of the
  summary table, and the run reaches its end with exit status 0.
\<close>

theorem expense_ratio_no_error:
  assumes b: "wb ''Skenario Base'' = Some wsb" "numeric_sheet wsb"
    and o: "wb ''Skenario Optimistis'' = Some wso" "numeric_sheet wso"
    and p: "wb ''Skenario Pesimistis'' = Some wsp" "numeric_sheet wsp"
  shows "\<exists>r. run env (Some wb) = Completed r
     \<and> exit_status (run env (Some wb)) = 0
     \<and> (let ins = amounts wsb 13; outs = amounts wsb 25;
             ratio = (if sum_list ins \<noteq> 0
                      then Fin ((sum_list outs / 9) / (sum_list ins / 9) * 100)
                      else if sum_list outs > 0 then PosInf
                      else if sum_list outs < 0 then NegInf else NaN)
         in expense_ratio_pct (metrics (results r)) = Np ratio
            \<and> (summary_csv_ok env \<longrightarrow>
                 (\<exists>rows. analysis_summary_csv (exported r) = Some rows
                    \<and> length rows = 10
                    \<and> rows ! 4 = (''Expense Ratio'', Np ratio))))"
proof -
  let ?b = "sheet_frame wsb" and ?o = "sheet_frame wso" and ?p = "sheet_frame wsp"
  let ?ins = "amounts wsb 13" and ?outs = "amounts wsb 25"
  from run_numeric [of wb wsb wso wsp env] b o p obtain a where
    run: "run env (Some wb) =
       Completed
         \<lparr> results = a,
           break_even = break_even_analysis wb,
           dashboard_png = generate_visualizations env ?o ?b ?p,
           exported = export_results env (metrics a) (statistics a) (risk a) ?o ?b ?p \<rparr>"
    and km: "avg_inflows (metrics a) = mean ?ins" "avg_outflows (metrics a) = mean ?outs"
      "expense_ratio_pct (metrics a) = Np (np_mul (np_div (mean ?outs) (mean ?ins)) (Fin 100))"
    and rk: "base_case (risk a) = Np (Fin (last (amounts wsb 29)))"
      "best_case (risk a) = Np (Fin (last (amounts wso 29)))"
      "worst_case (risk a) = Np (Fin (last (amounts wsp 29)))"
      "risk_range_value (risk a) = Np (Fin (last (amounts wso 29) - last (amounts wsp 29)))"
    by blast
  let ?r = "\<lparr> results = a,
           break_even = break_even_analysis wb,
           dashboard_png = generate_visualizations env ?o ?b ?p,
           exported = export_results env (metrics a) (statistics a) (risk a) ?o ?b ?p \<rparr>"
  let ?ratio = "if sum_list ?ins \<noteq> 0
                then Fin ((sum_list ?outs / 9) / (sum_list ?ins / 9) * 100)
                else if sum_list ?outs > 0 then PosInf
                else if sum_list ?outs < 0 then NegInf else NaN"
  have mi: "mean ?ins = Fin (sum_list ?ins / 9)"
    using amounts_nonempty [of wsb 13] by (simp add: mean_def length_amounts)
  have mo: "mean ?outs = Fin (sum_list ?outs / 9)"
    using amounts_nonempty [of wsb 25] by (simp add: mean_def length_amounts)
  have ratio: "np_mul (np_div (mean ?outs) (mean ?ins)) (Fin 100) = ?ratio"
    unfolding mi mo by simp
  have st: "exit_status (run env (Some wb)) = 0" by (simp add: run)
  have er: "expense_ratio_pct (metrics (results ?r)) = Np ?ratio"
    by (simp add: km(3) ratio)
  note exp = export_results_Np [OF rk, of env "metrics a" "statistics a" ?o ?b ?p]
  have rows: "summary_csv_ok env \<longrightarrow>
                 (\<exists>rows. analysis_summary_csv (exported ?r) = Some rows
                    \<and> length rows = 10
                    \<and> rows ! 4 = (''Expense Ratio'', Np ?ratio))"
    using ratio by (simp add: exp km(1,2))
  show ?thesis
    unfolding Let_def
    by (rule exI [where x = ?r]) (intro conjI run st er rows)
qed

lemma numeric_outflow_sheet:
  "numeric_sheet (\<lambda>(r, c). if r = 25 then Some (CNum 5) else None)"
  by (simp add: numeric_sheet_def value_at_def amount_cell_def or_zero_def)

lemma amounts_outflow_sheet:
  "amounts (\<lambda>(r, c). if r = 25 then Some (CNum 5) else None) 13 = [0, 0, 0, 0, 0, 0, 0, 0, 0]"
  "amounts (\<lambda>(r, c). if r = 25 then Some (CNum 5) else None) 25 = [5, 5, 5, 5, 5, 5, 5, 5, 5]"
  by (simp_all add: amounts_def value_at_def or_zero_def)

lemma numeric_sheet_empty: "numeric_sheet Map.empty"
  by (simp add: numeric_sheet_def value_at_def amount_cell_def or_zero_def)

theorem expense_ratio_no_error_witness:
  "\<exists>r rows. run \<lparr> savefig = (\<lambda>fig. None), summary_csv_ok = True, scenario_csv_ok = True \<rparr>
         (Some [''Skenario Base'' \<mapsto> (\<lambda>(r, c). if r = 25 then Some (CNum 5) else None),
                ''Skenario Optimistis'' \<mapsto> Map.empty,
                ''Skenario Pesimistis'' \<mapsto> Map.empty]) = Completed r
     \<and> exit_status
          (run \<lparr> savefig = (\<lambda>fig. None), summary_csv_ok = True, scenario_csv_ok = True \<rparr>
            (Some [''Skenario Base'' \<mapsto> (\<lambda>(r, c). if r = 25 then Some (CNum 5) else None),
                   ''Skenario Optimistis'' \<mapsto> Map.empty,
                   ''Skenario Pesimistis'' \<mapsto> Map.empty])) = 0
     \<and> expense_ratio_pct (metrics (results r)) = Np PosInf
     \<and> analysis_summary_csv (exported r) = Some rows
     \<and> rows ! 4 = (''Expense Ratio'', Np PosInf)"
proof -
  let ?ws = "(\<lambda>(r, c). if r = 25 then Some (CNum 5) else None) :: worksheet"
  let ?wb = "[''Skenario Base'' \<mapsto> ?ws, ''Skenario Optimistis'' \<mapsto> Map.empty,
              ''Skenario Pesimistis'' \<mapsto> Map.empty] :: workbook"
  let ?env = "\<lparr> savefig = (\<lambda>fig. None), summary_csv_ok = True, scenario_csv_ok = True \<rparr>"
  have 1: "?wb ''Skenario Base'' = Some ?ws" by simp
  have 2: "?wb ''Skenario Optimistis'' = Some Map.empty" by simp
  have 3: "?wb ''Skenario Pesimistis'' = Some Map.empty" by simp
  from expense_ratio_no_error [of ?wb ?ws Map.empty Map.empty ?env]
    1 2 3 numeric_outflow_sheet numeric_sheet_empty
  show ?thesis
    unfolding Let_def amounts_outflow_sheet by auto
qed

section \<open>The guard of the correlation\<close>

lemma floor_log2_eq:
  assumes "2 powi e \<le> x" "x < 2 powi (e + 1)"
  shows "\<lfloor>log 2 x\<rfloor> = e"
proof -
  have "0 < (2::real) powi e" by simp
  with assms(1) have x: "0 < x" by linarith
  have a: "(2::real) powr real_of_int e = 2 powi e"
    by (rule powr_real_of_int') simp_all
  have b: "(2::real) powr real_of_int (e + 1) = 2 powi (e + 1)"
    by (rule powr_real_of_int') simp_all
  have "(\<lfloor>log 2 x\<rfloor> = e) =
      (2 powr real_of_int e \<le> x \<and> x < 2 powr real_of_int (e + 1))"
    using x by (intro floor_log_eq_powr_iff) simp_all
  then show ?thesis
    unfolding a b using assms by blast
qed

lemma fl_eval:
  assumes "2 powi e \<le> \<bar>x\<bar>" "\<bar>x\<bar> < 2 powi (e + 1)" "- 1022 \<le> e"
  shows "fl x = 2 powi (e - 52) * of_int (rne (x / 2 powi (e - 52)))"
proof -
  have "0 < (2::real) powi e" by simp
  with assms(1) have "0 < \<bar>x\<bar>" by linarith
  then have "x \<noteq> 0" by simp
  moreover have "\<lfloor>log 2 \<bar>x\<bar>\<rfloor> = e"
    using floor_log2_eq [OF assms(1,2)] .
  ultimately show ?thesis
    using assms(3) by (simp add: fl_def Let_def max_def)
qed

lemma rne_ge_floor: "\<lfloor>y\<rfloor> \<le> rne y"
  by (simp add: rne_def Let_def)

lemma fl_pos:
  assumes "2 powi e \<le> x" "x < 2 powi (e + 1)" "- 1022 \<le> e"
  shows "0 < fl x"
proof -
  have p: "0 < (2::real) powi e" by simp
  with assms(1) have x: "0 < x" by linarith
  then have ax: "\<bar>x\<bar> = x" by simp
  have u: "0 < (2::real) powi (e - 52)" by simp
  have "2 powi e / 2 powi (e - 52) = (2::real) powi 52"
    by (simp add: power_int_diff)
  then have "(2::real) powi 52 \<le> x / 2 powi (e - 52)"
    using assms(1) u by (metis divide_right_mono less_imp_le)
  moreover have "(1::real) \<le> 2 powi 52" by simp
  ultimately have "1 \<le> x / 2 powi (e - 52)" by linarith
  then have "1 \<le> \<lfloor>x / 2 powi (e - 52)\<rfloor>" by linarith
  with rne_ge_floor [of "x / 2 powi (e - 52)"] have "0 < rne (x / 2 powi (e - 52))"
    by linarith
  then show ?thesis
    using fl_eval [of e x] assms ax u by simp
qed



lemma rne_of_int: "rne (of_int n) = n"
  by (simp add: rne_def Let_def)

lemma fl_of_int:
  assumes "\<bar>m\<bar> < 2 ^ 53"
  shows "fl (of_int m) = of_int m"
proof (cases "m = 0")
  case True
  then show ?thesis by (simp add: fl_def)
next
  case False
  define x :: real where "x = \<bar>of_int m\<bar>"
  define e where "e = \<lfloor>log 2 x\<rfloor>"
  have x1: "1 \<le> x" using False by (simp add: x_def)
  then have x0: "0 < x" by linarith
  have a: "(2::real) powr real_of_int e = 2 powi e"
    by (rule powr_real_of_int') simp_all
  have b: "(2::real) powr real_of_int (e + 1) = 2 powi (e + 1)"
    by (rule powr_real_of_int') simp_all
  have "(\<lfloor>log 2 x\<rfloor> = e) =
      (2 powr real_of_int e \<le> x \<and> x < 2 powr real_of_int (e + 1))"
    using x0 by (intro floor_log_eq_powr_iff) simp_all
  moreover have "\<lfloor>log 2 x\<rfloor> = e" by (simp add: e_def)
  ultimately have pb: "2 powr real_of_int e \<le> x" "x < 2 powr real_of_int (e + 1)"
    by blast+
  have bounds: "2 powi e \<le> x" "x < 2 powi (e + 1)"
    using pb a b by metis+
  have e0: "0 \<le> e"
    unfolding e_def using x1 by simp
  have xlt: "x < 2 powi 53"
    using assms unfolding x_def
    by (metis of_int_abs of_int_less_numeral_power_cancel_iff power_int_numeral numeral_power_eq_of_int_cancel_iff of_int_numeral of_int_power)
  have e52: "e \<le> 52"
  proof (rule ccontr)
    assume "\<not> e \<le> 52"
    then have "53 \<le> e" by simp
    then have "(2::real) powi 53 \<le> 2 powi e"
      by (intro power_int_increasing) simp_all
    with bounds(1) xlt show False by linarith
  qed
  define k where "k = nat (52 - e)"
  have u: "(2::real) powi (e - 52) = 1 / 2 ^ k"
  proof -
    have "e - 52 = - int k" using e52 by (simp add: k_def)
    then show ?thesis by (simp add: power_int_minus_divide)
  qed
  have "of_int m / (2::real) powi (e - 52) = of_int (m * 2 ^ k)"
    by (simp add: u)
  then have r: "rne (of_int m / 2 powi (e - 52)) = m * 2 ^ k"
    using rne_of_int by metis
  have "fl (of_int m) = 2 powi (e - 52) * of_int (rne (of_int m / 2 powi (e - 52)))"
    using fl_eval [of e "of_int m"] bounds e0 unfolding x_def by simp
  then show ?thesis
    unfolding r by (simp add: u)
qed

lemma fl_numeral [simp]:
  "numeral n < (9007199254740992 :: int) \<Longrightarrow> fl (numeral n) = numeral n"
  using fl_of_int [of "numeral n"] by simp

lemma fl_neg_numeral [simp]:
  "numeral n < (9007199254740992 :: int) \<Longrightarrow> fl (- numeral n) = - numeral n"
  using fl_of_int [of "- numeral n"] by simp

lemma fl_0 [simp]: "fl 0 = 0"
  by (simp add: fl_def)

lemma fl_1 [simp]: "fl 1 = 1"
  using fl_of_int [of 1] by simp



lemma np_sum_9:
  "np_sum [a, b, c, d, e, f, g, h, i] =
     fl (fl (fl (fl (a + b) + fl (c + d)) + fl (fl (e + f) + fl (g + h))) + i)"
  by (simp add: np_sum.simps [of "[a, b, c, d, e, f, g, h, i]"] block_sum_def
      acc_blocks.simps [of _ "[i]"])

lemma std_9:
  "std [a, b, c, d, e, f, g, h, i] =
     (let avg = fl (np_sum [fl a, fl b, fl c, fl d, fl e, fl f, fl g, fl h, fl i] / 9)
      in Fin (fl (sqrt (fl (np_sum
           [fl ((fl (avg - fl a))\<^sup>2), fl ((fl (avg - fl b))\<^sup>2), fl ((fl (avg - fl c))\<^sup>2),
            fl ((fl (avg - fl d))\<^sup>2), fl ((fl (avg - fl e))\<^sup>2), fl ((fl (avg - fl f))\<^sup>2),
            fl ((fl (avg - fl g))\<^sup>2), fl ((fl (avg - fl h))\<^sup>2), fl ((fl (avg - fl i))\<^sup>2)]
           / 8)))))"
  by (simp add: std_def Let_def)

lemma fl_neg_1 [simp]: "fl (- 1) = - 1"
  using fl_of_int [of "- 1"] by simp

lemma std_one_to_nine: "np_gt (std [1, 2, 3, 4, 5, 6, 7, 8, 9]) 0"
proof -
  have v: "fl (15 / 2) = 15 / 2"
    using fl_eval [of 2 "15 / 2"] by (simp add: rne_def Let_def)
  have "0 < fl (sqrt (15 / 2))"
  proof (rule fl_pos [of 1])
    show "2 powi 1 \<le> sqrt (15 / 2)" by (simp add: real_le_rsqrt)
    show "sqrt (15 / 2) < 2 powi (1 + 1)" by (simp add: real_less_lsqrt)
  qed simp
  then show ?thesis
    by (simp add: std_9 np_sum_9 Let_def v)
qed

lemma std_constant_tenth:
  "np_gt (std [1000000.1, 1000000.1, 1000000.1, 1000000.1, 1000000.1,
               1000000.1, 1000000.1, 1000000.1, 1000000.1]) 0"
proof -
  have c: "fl (10000001 / 10) = 8589935450993459 / 8589934592"
    using fl_eval [of 19 "10000001 / 10"] by (simp add: rne_def Let_def)
  have t1: "fl (8589935450993459 / 4294967296) = 8589935450993459 / 4294967296"
    using fl_eval [of 20 "8589935450993459 / 4294967296"] by (simp add: rne_def Let_def)
  have t2: "fl (8589935450993459 / 2147483648) = 8589935450993459 / 2147483648"
    using fl_eval [of 21 "8589935450993459 / 2147483648"] by (simp add: rne_def Let_def)
  have t3: "fl (8589935450993459 / 1073741824) = 8589935450993459 / 1073741824"
    using fl_eval [of 22 "8589935450993459 / 1073741824"] by (simp add: rne_def Let_def)
  have s: "fl (77309419058941131 / 8589934592) = 4831838691183821 / 536870912"
    using fl_eval [of 23 "77309419058941131 / 8589934592"] by (simp add: rne_def Let_def)
  have avg: "fl (4831838691183821 / 4831838208) = 2147483862748365 / 2147483648"
    using fl_eval [of 19 "4831838691183821 / 4831838208"] by (simp add: rne_def Let_def)
  have d: "fl (1 / 8589934592) = 1 / 8589934592"
    using fl_eval [of "- 33" "1 / 8589934592"] by (simp add: rne_def Let_def)
  have q: "fl (1 / 73786976294838206464) = 1 / 73786976294838206464"
    using fl_eval [of "- 66" "1 / 73786976294838206464"] by (simp add: rne_def Let_def)
  have u1: "fl (1 / 36893488147419103232) = 1 / 36893488147419103232"
    using fl_eval [of "- 65" "1 / 36893488147419103232"] by (simp add: rne_def Let_def)
  have u2: "fl (1 / 18446744073709551616) = 1 / 18446744073709551616"
    using fl_eval [of "- 64" "1 / 18446744073709551616"] by (simp add: rne_def Let_def)
  have u3: "fl (1 / 9223372036854775808) = 1 / 9223372036854775808"
    using fl_eval [of "- 63" "1 / 9223372036854775808"] by (simp add: rne_def Let_def)
  have w: "fl (9 / 73786976294838206464) = 9 / 73786976294838206464"
    using fl_eval [of "- 63" "9 / 73786976294838206464"] by (simp add: rne_def Let_def)
  have var: "fl (9 / 590295810358705651712) = 9 / 590295810358705651712"
    using fl_eval [of "- 66" "9 / 590295810358705651712"] by (simp add: rne_def Let_def)
  have pos: "0 < fl (sqrt (9 / 590295810358705651712))"
  proof (rule fl_pos [of "- 33"])
    have "1 / 8589934592 \<le> sqrt (9 / 590295810358705651712)"
      by (rule real_le_rsqrt) (simp add: power2_eq_square)
    then show "2 powi - 33 \<le> sqrt (9 / 590295810358705651712)" by simp
    have "sqrt (9 / 590295810358705651712) < 1 / 4294967296"
      by (rule real_less_lsqrt) (simp_all add: power2_eq_square)
    then show "sqrt (9 / 590295810358705651712) < 2 powi (- 33 + 1)" by simp
  qed simp
  show ?thesis
    using pos
    by (simp add: std_9 np_sum_9 Let_def c t1 t2 t3 s avg d q u1 u2 u3 w var power2_eq_square)
qed

lemma std_constant_whole: "\<not> np_gt (std [10000000, 10000000, 10000000, 10000000, 10000000,
                                   10000000, 10000000, 10000000, 10000000]) 0"
  by (simp add: std_9 np_sum_9 Let_def)

text \<open>
  Claim C8 holds of a constant column of whole numbers, for which every rounding is
  exact, but not of every constant: for nine inflows of 1000000.1 the float64 mean is
  one unit in the last place above the value, the standard deviation that pandas returns
  is positive (about 1.23e-10), the guard passes and the script computes and prints a
  correlation for a column that does not vary.
\<close>

theorem constant_column_passes_guard:
  "np_gt (std [1000000.1, 1000000.1, 1000000.1, 1000000.1, 1000000.1,
              1000000.1, 1000000.1, 1000000.1, 1000000.1]) 0
   \<and> correlation [1000000.1, 1000000.1, 1000000.1, 1000000.1, 1000000.1,
                   1000000.1, 1000000.1, 1000000.1, 1000000.1]
                  [1, 2, 3, 4, 5, 6, 7, 8, 9] \<noteq> CannotCalculate
   \<and> correlation [10000000, 10000000, 10000000, 10000000, 10000000,
                   10000000, 10000000, 10000000, 10000000]
                  [1, 2, 3, 4, 5, 6, 7, 8, 9] = CannotCalculate"
  using std_constant_tenth std_one_to_nine std_constant_whole
  by (simp add: correlation_def Let_def)

end
